theory Spec2Isabelle
  imports Complex_Main "HOL-Library.Word"
begin

unbundle bit_operations_syntax

section \<open>Data model\<close>

text \<open>
  The per-worker engine of the load generator (\<^verbatim>\<open>src/wrk.c\<close>, \<^verbatim>\<open>src/wrk.h\<close>,
  \<^verbatim>\<open>src/net.h\<close>). Unsigned 64-bit quantities (\<^verbatim>\<open>uint64_t\<close>, \<^verbatim>\<open>size_t\<close>) are
  64-bit words, so that \<open>+\<close> and \<open>-\<close> wrap as they do in C; a C \<^verbatim>\<open>int\<close> used as a
  bit mask is a 32-bit word. The clock \<^verbatim>\<open>time_us()\<close> is an input \<open>now\<close> of every
  function that reads it.
\<close>

type_synonym u64 = "64 word"
type_synonym i64 = "64 word"
type_synonym cint = "32 word"

text \<open>\<^verbatim>\<open>net.h\<close>: the result of a transport operation and the retry hints.\<close>

datatype status = OK | ERROR | RETRY

definition E_WANT_READ :: cint where
  "E_WANT_READ = 1"

definition E_WANT_WRITE :: cint where
  "E_WANT_WRITE = 2"

text \<open>\<^verbatim>\<open>wrk.h\<close>: buffer size and timer periods.\<close>

definition RECVBUF :: u64 where
  "RECVBUF = 8192"

definition CALIBRATE_DELAY_MS :: int where
  "CALIBRATE_DELAY_MS = 10000"

definition STOP_CHECK_INTERNAL_MS :: int where
  "STOP_CHECK_INTERNAL_MS = 2000"

definition THREAD_SYNC_INTERVAL_MS :: int where
  "THREAD_SYNC_INTERVAL_MS = 1000"

text \<open>\<^verbatim>\<open>wrk.c\<close>: the phases of a worker and the configuration \<^verbatim>\<open>cfg\<close>.\<close>

datatype phase_t = PHASE_INIT | PHASE_WARMUP | PHASE_NORMAL

record config =
  cfg_threads :: u64
  cfg_connections :: u64
  cfg_duration :: u64
  cfg_pipeline :: u64
  cfg_rate :: u64
  cfg_warmup_timeout :: u64
  cfg_dynamic :: bool
  cfg_record_all_responses :: bool
  cfg_warmup :: bool

subsection \<open>The event loop\<close>

text \<open>
  Modelled from the spec: \<^verbatim>\<open>ae.h\<close> and \<^verbatim>\<open>ae.c\<close> are not among the sources. Section 4.3
  of the specification describes the loop as file events \<open>(fd, mask) \<rightarrow> callback\<close> with
  \<open>mask\<close> drawn from READABLE and WRITABLE, where creating an event adds the new bits
  to the subscription, and time events \<open>delay_ms \<rightarrow> callback\<close> whose callback answers
  either NOMORE or the next delay. Section 5 sizes the file-event table at
  \<open>10 + 3 * connections\<close> descriptors; a descriptor outside the table cannot be
  registered. The two readiness flags are distinct single bits.
\<close>

definition AE_READABLE :: cint where
  "AE_READABLE = 1"

definition AE_WRITABLE :: cint where
  "AE_WRITABLE = 2"

definition AE_NOMORE :: int where
  "AE_NOMORE = - 1"

datatype ae_rc = AE_OK | AE_ERR

datatype file_proc = Socket_connected | Socket_readable | Socket_writeable

datatype time_proc =
  Delayed_initial_connect | Calibrate | Check_stop | Warmup_timed_out
  | Inter_thread_sync | Sample_rate | Delay_request

record aeFileEvent =
  fe_mask :: cint
  rfileProc :: "file_proc option"
  wfileProc :: "file_proc option"

record aeEventLoop =
  setsize :: int
  events :: "int \<Rightarrow> aeFileEvent"
  timeEvents :: "(int \<times> time_proc) list"
  stopped :: bool

definition aeCreateEventLoop :: "int \<Rightarrow> aeEventLoop" where
  "aeCreateEventLoop n =
     \<lparr>setsize = n,
      events = (\<lambda>fd. \<lparr>fe_mask = 0, rfileProc = None, wfileProc = None\<rparr>),
      timeEvents = [], stopped = False\<rparr>"

definition aeCreateFileEvent ::
  "aeEventLoop \<Rightarrow> int \<Rightarrow> cint \<Rightarrow> file_proc \<Rightarrow> ae_rc \<times> aeEventLoop" where
  "aeCreateFileEvent l fd m proc =
     (if fd < 0 \<or> setsize l \<le> fd then (AE_ERR, l)
      else
        let fe = events l fd;
            fe' = fe\<lparr>fe_mask := fe_mask fe OR m,
                     rfileProc := (if m AND AE_READABLE \<noteq> 0 then Some proc else rfileProc fe),
                     wfileProc := (if m AND AE_WRITABLE \<noteq> 0 then Some proc else wfileProc fe)\<rparr>
        in (AE_OK, l\<lparr>events := (events l)(fd := fe')\<rparr>))"

definition aeDeleteFileEvent :: "aeEventLoop \<Rightarrow> int \<Rightarrow> cint \<Rightarrow> aeEventLoop" where
  "aeDeleteFileEvent l fd m =
     (if fd < 0 \<or> setsize l \<le> fd then l
      else
        let fe = events l fd
        in l\<lparr>events := (events l)(fd := fe\<lparr>fe_mask := fe_mask fe AND NOT m\<rparr>)\<rparr>)"

definition aeCreateTimeEvent :: "aeEventLoop \<Rightarrow> int \<Rightarrow> time_proc \<Rightarrow> aeEventLoop" where
  "aeCreateTimeEvent l ms proc = l\<lparr>timeEvents := timeEvents l @ [(ms, proc)]\<rparr>"

definition aeStop :: "aeEventLoop \<Rightarrow> aeEventLoop" where
  "aeStop l = l\<lparr>stopped := True\<rparr>"

subsection \<open>Floating point\<close>

text \<open>
  The pacer computes with C doubles. The model does not fix a floating-point format:
  every function that evaluates such an expression takes the arithmetic as a
  parameter. \<open>sched fp t0 n rate\<close> is the value the platform gives to the C expression
  \<^verbatim>\<open>t0 + (n / rate)\<close> (with \<^verbatim>\<open>uint64_t t0, n\<close> and \<^verbatim>\<open>double rate\<close>) when it is stored
  into a \<^verbatim>\<open>uint64_t\<close>; \<open>rnd fp\<close> rounds a real number to the format in use, and a
  floating-point operation is the exact operation followed by \<open>rnd fp\<close>.
  \<open>exact_fpu\<close> is the arithmetic without rounding error.
\<close>

record fpu =
  sched :: "u64 \<Rightarrow> u64 \<Rightarrow> real \<Rightarrow> u64"
  rnd :: "real \<Rightarrow> real"

definition exact_fpu :: fpu where
  "exact_fpu =
     \<lparr>sched = (\<lambda>t0 n rate. word_of_int \<lfloor>real (unat t0) + real (unat n) / rate\<rfloor>),
      rnd = (\<lambda>x. x)\<rparr>"


text \<open>The C library's \<^verbatim>\<open>round\<close>: to the nearest integer, halves away from zero.\<close>

definition c_round :: "real \<Rightarrow> int" where
  "c_round x = (if 0 \<le> x then \<lfloor>x + 1 / 2\<rfloor> else \<lceil>x - 1 / 2\<rceil>)"

subsection \<open>Results and effects\<close>

text \<open>
  A handler either returns to the event loop, or leaves the process through
  \<^verbatim>\<open>exit(n)\<close>, or fails an \<^verbatim>\<open>assert\<close>, or performs a conversion that C leaves
  undefined (a floating-point value outside the range of \<^verbatim>\<open>int\<close>).
\<close>

datatype 'a outcome = Continue 'a | Exit nat | Abort | Undefined

text \<open>
  What a handler does to the outside world: the transport's \<^verbatim>\<open>close\<close>, the system
  call \<^verbatim>\<open>close\<close>, and the start time that \<^verbatim>\<open>response_complete\<close> recomputes and
  prints on its negative-latency branch.
\<close>

datatype effect = Sock_close int | Close int | Print_next_expected_latency_start u64

subsection \<open>Workers and connections\<close>

text \<open>
  Modelled from the spec: the type \<^verbatim>\<open>errors\<close> is declared in \<^verbatim>\<open>stats.h\<close>, which is not
  among the sources. Section 7 lists its counters and states that a counter cannot
  roll over within a run, so each counter is a natural number.
\<close>

record errors =
  connect :: nat
  read :: nat
  write_e :: nat
  timeout :: nat
  status :: nat
  established :: nat
  reconnect :: nat

text \<open>
  A connection, with the fields \<^verbatim>\<open>wrk.c\<close> reads and writes in the functions below
  (the parser, the TLS session and the buffers are left to the transport and parser
  inputs of each handler). \<^verbatim>\<open>throughput\<close> and \<^verbatim>\<open>catch_up_throughput\<close> are C doubles.
\<close>

record connection =
  fd :: int
  connect_mask :: cint
  complete_at_last_batch_start :: u64
  start :: u64
  length_req :: u64
  written :: u64
  pending :: u64
  actual_latency_start :: u64
  is_connected :: bool
  has_pending :: bool
  latest_should_send_time :: u64
  latest_expected_start :: u64
  latest_connect :: u64
  latest_write :: u64
  throughput :: real
  catch_up_throughput :: real
  complete :: u64
  caught_up :: bool
  catch_up_start_time :: u64
  complete_at_catch_up_start :: u64
  thread_start :: u64

text \<open>
  A worker. \<^verbatim>\<open>hdr_histogram.c\<close> is not among the sources: each histogram is kept as
  the list of the values handed to \<^verbatim>\<open>hdr_record_value\<close>, newest first. The
  connection a handler works on is passed beside the worker and written back into
  \<open>cs\<close> by the caller. \<open>effects\<close> lists what the worker did to the outside world,
  newest first. The fields \<^verbatim>\<open>complete\<close>, \<^verbatim>\<open>start\<close> and \<^verbatim>\<open>throughput\<close> of the worker
  carry the prefix \<open>t_\<close>, the field \<^verbatim>\<open>errors\<close> is \<open>errs\<close>.
\<close>

record thread =
  loop :: aeEventLoop
  connections :: u64
  phase_normal_start :: u64
  phase :: phase_t
  stop_at :: u64
  t_complete :: u64
  requests :: u64
  bytes :: u64
  t_start :: u64
  latency_histogram :: "i64 list"
  u_latency_histogram :: "i64 list"
  errs :: errors
  cs :: "connection list"
  t_throughput :: real
  effects :: "effect list"

section \<open>The aggregator's runtime base (main)\<close>

text \<open>
  \<^verbatim>\<open>main\<close>, the loop that joins the workers: \<^verbatim>\<open>phase_normal_start_min\<close> starts at 0
  and takes a worker's \<^verbatim>\<open>phase_normal_start\<close> when it is still 0, or when the
  worker's value is nonzero and smaller.
\<close>

fun phase_normal_start_min :: "u64 \<Rightarrow> thread list \<Rightarrow> u64" where
  "phase_normal_start_min m [] = m"
| "phase_normal_start_min m (t # ts) =
     phase_normal_start_min
       (if m = 0 \<or> (phase_normal_start t \<noteq> 0 \<and> phase_normal_start t < m)
        then phase_normal_start t else m) ts"

definition runtime_start :: "u64 \<Rightarrow> thread list \<Rightarrow> u64" where
  "runtime_start start0 ts =
     (let m = phase_normal_start_min 0 ts in if m \<noteq> 0 then m else start0)"

text \<open>The nonzero \<^verbatim>\<open>phase_normal_start\<close> values of a list of workers.\<close>

definition nonzero_starts :: "thread list \<Rightarrow> u64 set" where
  "nonzero_starts ts = {p \<in> phase_normal_start ` set ts. p \<noteq> 0}"

section \<open>Connecting (connect_socket, reconnect_socket)\<close>

text \<open>
  What the operating system answers while \<^verbatim>\<open>connect_socket\<close> runs: the descriptor
  returned by \<^verbatim>\<open>socket\<close> (negative on failure), whether \<^verbatim>\<open>bind_socket\<close> is called
  and leaves through \<^verbatim>\<open>exit(1)\<close>, whether \<^verbatim>\<open>connect\<close> fails with an error other
  than \<^verbatim>\<open>EINPROGRESS\<close>, and the clock.
\<close>

record sys_env =
  sock_fd :: int
  bind_exits :: bool
  connect_refused :: bool
  connect_now :: u64

definition connect_error :: "int \<Rightarrow> thread \<Rightarrow> thread" where
  "connect_error new_fd t =
     t\<lparr>errs := (errs t)\<lparr>connect := connect (errs t) + 1\<rparr>,
       effects := Close new_fd # effects t\<rparr>"

definition connect_socket ::
  "sys_env \<Rightarrow> thread \<Rightarrow> connection \<Rightarrow> (int \<times> thread \<times> connection) outcome" where
  "connect_socket env t c =
     (let c1 = c\<lparr>is_connected := False\<rparr>;
          new_fd = sock_fd env
      in if new_fd < 0 then Exit 1
         else if bind_exits env then Exit 1
         else if connect_refused env then Continue (- 1, connect_error new_fd t, c1)
         else
           let flags = AE_READABLE OR AE_WRITABLE;
               c2 = c1\<lparr>latest_connect := connect_now env, connect_mask := flags\<rparr>
           in case aeCreateFileEvent (loop t) new_fd flags Socket_connected of
                (AE_OK, l) \<Rightarrow> Continue (new_fd, t\<lparr>loop := l\<rparr>, c2\<lparr>fd := new_fd\<rparr>)
              | (AE_ERR, l) \<Rightarrow> Continue (- 1, connect_error new_fd t, c2))"

definition reconnect_socket ::
  "sys_env \<Rightarrow> thread \<Rightarrow> connection \<Rightarrow> (int \<times> thread \<times> connection) outcome" where
  "reconnect_socket env t c =
     (let l = aeDeleteFileEvent (loop t) (fd c) (AE_WRITABLE OR AE_READABLE);
          t1 = t\<lparr>loop := l,
                 effects := Close (fd c) # Sock_close (fd c) # effects t,
                 errs := (errs t)\<lparr>reconnect := reconnect (errs t) + 1\<rparr>\<rparr>
      in connect_socket env t1 c)"

text \<open>A handler that calls \<^verbatim>\<open>reconnect_socket\<close> drops the descriptor it returns.\<close>

definition drop_fd :: "(int \<times> thread \<times> connection) outcome \<Rightarrow> (thread \<times> connection) outcome" where
  "drop_fd r = (case r of Continue (new_fd, t, c) \<Rightarrow> Continue (t, c)
                | Exit n \<Rightarrow> Exit n | Abort \<Rightarrow> Abort | Undefined \<Rightarrow> Undefined)"

definition delayed_initial_connect ::
  "u64 \<Rightarrow> sys_env \<Rightarrow> thread \<Rightarrow> connection \<Rightarrow> (int \<times> thread \<times> connection) outcome" where
  "delayed_initial_connect now env t c =
     (case drop_fd (connect_socket env t (c\<lparr>thread_start := now\<rparr>)) of
        Continue (t', c') \<Rightarrow> Continue (AE_NOMORE, t', c')
      | Exit n \<Rightarrow> Exit n | Abort \<Rightarrow> Abort | Undefined \<Rightarrow> Undefined)"

section \<open>The rate pacer (usec_to_next_send, delay_request)\<close>

text \<open>
  \<^verbatim>\<open>usec_to_next_send\<close> with its local variables \<^verbatim>\<open>send_now\<close> and \<^verbatim>\<open>next_start_time\<close>,
  the latter assigned a second time on the branch that is behind schedule. It returns
  the wait in microseconds, 0 for "send now", and the connection as it leaves it.
\<close>

definition usec_to_next_send :: "fpu \<Rightarrow> u64 \<Rightarrow> connection \<Rightarrow> u64 \<times> connection" where
  "usec_to_next_send fp now c =
     (let next_start_time = sched fp (thread_start c) (complete c) (throughput c);
          (send_now, next_start_time, c) =
            (if next_start_time > now then
               (False, next_start_time, c\<lparr>caught_up := True\<rparr>)
             else
               let c = (if caught_up c then
                          c\<lparr>caught_up := False, catch_up_start_time := now,
                            complete_at_catch_up_start := complete c\<rparr>
                        else c);
                   complete_since_catch_up_start = complete c - complete_at_catch_up_start c;
                   next_start_time =
                     sched fp (catch_up_start_time c) complete_since_catch_up_start
                       (catch_up_throughput c)
               in (\<not> next_start_time > now, next_start_time, c));
          c = (if send_now then
                 c\<lparr>latest_should_send_time := now, latest_expected_start := next_start_time\<rparr>
               else c)
      in (if send_now then 0 else next_start_time - now, c))"

text \<open>
  \<^verbatim>\<open>round((time_usec_to_wait / 1000.0L) + 0.5)\<close>: the rounded value, and its conversion
  to the \<^verbatim>\<open>int\<close> that \<^verbatim>\<open>delay_request\<close> returns and \<^verbatim>\<open>socket_writeable\<close> stores in
  \<^verbatim>\<open>msec_to_wait\<close>. C leaves the conversion undefined outside the range of \<^verbatim>\<open>int\<close>.
  The wait is converted to floating point, divided, added to and passed to \<^verbatim>\<open>round\<close>,
  and each of the four steps rounds to the format.
\<close>

definition round_msec :: "fpu \<Rightarrow> u64 \<Rightarrow> int" where
  "round_msec fp w =
     c_round (rnd fp (rnd fp (rnd fp (rnd fp (real (unat w)) / 1000) + 1 / 2)))"

definition msec_to_wait :: "fpu \<Rightarrow> u64 \<Rightarrow> int outcome" where
  "msec_to_wait fp w =
     (let r = round_msec fp w
      in if - 2147483648 \<le> r \<and> r \<le> 2147483647 then Continue r else Undefined)"

definition delay_request ::
  "fpu \<Rightarrow> u64 \<Rightarrow> thread \<Rightarrow> connection \<Rightarrow> (int \<times> thread \<times> connection) outcome" where
  "delay_request fp now t c =
     (let (time_usec_to_wait, c1) = usec_to_next_send fp now c
      in if time_usec_to_wait \<noteq> 0 then
           (case msec_to_wait fp time_usec_to_wait of
              Continue ms \<Rightarrow> Continue (ms, t, c1)
            | Exit n \<Rightarrow> Exit n | Abort \<Rightarrow> Abort | Undefined \<Rightarrow> Undefined)
         else
           Continue (AE_NOMORE,
             t\<lparr>loop := snd (aeCreateFileEvent (loop t) (fd c1) AE_WRITABLE Socket_writeable)\<rparr>,
             c1))"

section \<open>Completed responses (response_complete)\<close>

text \<open>
  A response the parser has completed: the clock when \<^verbatim>\<open>response_complete\<close> runs,
  the status code, the answer of \<^verbatim>\<open>http_should_keep_alive\<close>, and the operating
  system's answers should the handler reconnect. The call of the script hook and the
  header state are left out. On its negative-latency branch the source assigns the
  recomputed start time to \<^verbatim>\<open>expected_latency_start\<close> and prints it; the variable is
  not read again, and \<^verbatim>\<open>expected_latency_timing\<close> keeps the value computed first.
\<close>

record message =
  msg_now :: u64
  status_code :: int
  keep_alive :: bool
  msg_env :: sys_env

definition response_complete ::
  "config \<Rightarrow> fpu \<Rightarrow> message \<Rightarrow> thread \<Rightarrow> connection \<Rightarrow> (thread \<times> connection) outcome" where
  "response_complete cfg fp m t c =
     (let now = msg_now m;
          t1 = t\<lparr>t_complete := t_complete t + 1, requests := requests t + 1\<rparr>;
          t2 = (if status_code m > 399
                then t1\<lparr>errs := (errs t1)\<lparr>status := status (errs t1) + 1\<rparr>\<rparr> else t1)
      in if now \<ge> stop_at t2 then Continue (t2\<lparr>loop := aeStop (loop t2)\<rparr>, c)
         else
           let c1 = c\<lparr>complete := complete c + 1\<rparr>;
               expected_latency_start =
                 sched fp (thread_start c1) (complete_at_last_batch_start c1) (throughput c1);
               expected_latency_timing = now - expected_latency_start;
               t3 = (if sint expected_latency_timing < 0 then
                       t2\<lparr>effects :=
                            Print_next_expected_latency_start
                              (sched fp (thread_start c1) (complete c1) (throughput c1))
                            # effects t2\<rparr>
                     else t2);
               c2 = c1\<lparr>latest_should_send_time := 0, latest_expected_start := 0\<rparr>;
               c3 = c2\<lparr>pending := pending c2 - 1\<rparr>;
               (t4, c4) =
                 (if pending c3 = 0 then
                    (t3\<lparr>loop := snd (aeCreateFileEvent (loop t3) (fd c3) AE_WRITABLE
                                         Socket_writeable)\<rparr>,
                     c3\<lparr>has_pending := False\<rparr>)
                  else (t3, c3));
               t5 = (if cfg_record_all_responses cfg \<or> \<not> has_pending c4 then
                       t4\<lparr>latency_histogram := expected_latency_timing # latency_histogram t4,
                          u_latency_histogram :=
                            (now - actual_latency_start c4) # u_latency_histogram t4\<rparr>
                     else t4)
           in if \<not> keep_alive m then drop_fd (reconnect_socket (msg_env m) t5 c4)
              else Continue (t5, c4))"

section \<open>The connect handler (socket_connected)\<close>

text \<open>
  The process-wide barrier variables \<^verbatim>\<open>g_ready_threads\<close> (a C \<^verbatim>\<open>int\<close>, kept unbounded:
  it is incremented at most once per worker) and \<^verbatim>\<open>g_is_ready\<close>.
\<close>

record globals =
  g_ready_threads :: int
  g_is_ready :: bool

text \<open>
  The answer of the transport's \<^verbatim>\<open>connect\<close>: its status, the retry hints it stores in
  \<^verbatim>\<open>retry_flags\<close>, and the operating system's answers should the handler reconnect.
\<close>

record connect_answer =
  ca_status :: status
  retry_flags :: cint
  ca_env :: sys_env

text \<open>
  The flags \<^verbatim>\<open>add_flags\<close> and \<^verbatim>\<open>del_flags\<close> that the \<^verbatim>\<open>RETRY\<close> branch computes from the
  hints and from \<^verbatim>\<open>connect_mask\<close>, then the handler itself.
\<close>

definition retry_add_flags :: "cint \<Rightarrow> cint \<Rightarrow> cint" where
  "retry_add_flags rf cm =
     (let add_flags = 0;
          add_flags = (if rf AND E_WANT_READ \<noteq> 0 \<and> \<not> cm AND AE_READABLE \<noteq> 0
                       then add_flags OR AE_READABLE else add_flags);
          add_flags = (if rf AND E_WANT_WRITE \<noteq> 0 \<and> \<not> cm AND AE_WRITABLE \<noteq> 0
                       then add_flags OR AE_WRITABLE else add_flags)
      in add_flags)"

definition retry_del_flags :: "cint \<Rightarrow> cint \<Rightarrow> cint" where
  "retry_del_flags rf cm =
     (let del_flags = 0;
          del_flags = (if \<not> rf AND E_WANT_READ \<noteq> 0 \<and> cm AND AE_READABLE \<noteq> 0
                       then del_flags OR AE_READABLE else del_flags);
          del_flags = (if \<not> rf AND E_WANT_WRITE \<noteq> 0 \<and> cm AND AE_WRITABLE \<noteq> 0
                       then del_flags OR AE_WRITABLE else del_flags)
      in del_flags)"

definition socket_connected ::
  "config \<Rightarrow> connect_answer \<Rightarrow> globals \<Rightarrow> thread \<Rightarrow> connection
     \<Rightarrow> (globals \<times> thread \<times> connection) outcome" where
  "socket_connected cfg a g t c =
     (case ca_status a of
        ERROR \<Rightarrow>
          (case drop_fd (reconnect_socket (ca_env a)
                  (t\<lparr>errs := (errs t)\<lparr>connect := connect (errs t) + 1\<rparr>\<rparr>) c) of
             Continue (t', c') \<Rightarrow> Continue (g, t', c')
           | Exit n \<Rightarrow> Exit n | Abort \<Rightarrow> Abort | Undefined \<Rightarrow> Undefined)
      | RETRY \<Rightarrow>
          (let add_flags = retry_add_flags (retry_flags a) (connect_mask c);
               del_flags = retry_del_flags (retry_flags a) (connect_mask c)
           in if add_flags AND del_flags \<noteq> 0 then Abort
              else
                let (t1, c1) =
                      (if del_flags \<noteq> 0 then
                         (t\<lparr>loop := aeDeleteFileEvent (loop t) (fd c) del_flags\<rparr>,
                          c\<lparr>connect_mask := connect_mask c AND NOT del_flags\<rparr>)
                       else (t, c))
                in if add_flags \<noteq> 0 then
                     (case aeCreateFileEvent (loop t1) (fd c1) add_flags Socket_connected of
                        (AE_OK, l) \<Rightarrow>
                          Continue (g, t1\<lparr>loop := l\<rparr>,
                                    c1\<lparr>connect_mask := connect_mask c1 OR add_flags\<rparr>)
                      | (AE_ERR, l) \<Rightarrow> Abort)
                   else Continue (g, t1, c1))
      | OK \<Rightarrow>
          if is_connected c then Continue (g, t, c)
          else
            let c1 = c\<lparr>written := 0, is_connected := True\<rparr>;
                t1 = t\<lparr>errs := (errs t)\<lparr>established := established (errs t) + 1\<rparr>\<rparr>;
                t2 = (if phase t1 = PHASE_NORMAL then
                        t1\<lparr>loop :=
                             snd (aeCreateFileEvent
                                    (snd (aeCreateFileEvent (loop t1) (fd c1) AE_READABLE
                                            Socket_readable))
                                    (fd c1) AE_WRITABLE Socket_writeable)\<rparr>
                      else t1)
            in if cfg_warmup cfg \<and> established (errs t2) = unat (connections t2) then
                 let t3 = t2\<lparr>loop := aeCreateTimeEvent (loop t2) THREAD_SYNC_INTERVAL_MS
                                          Inter_thread_sync\<rparr>;
                     counter = g_ready_threads g + 1;
                     g1 = g\<lparr>g_ready_threads := counter\<rparr>;
                     g2 = (if counter = uint (cfg_threads cfg)
                           then g1\<lparr>g_is_ready := True\<rparr> else g1)
                 in Continue (g2, t3, c1)
               else Continue (g, t2, c1))"

section \<open>The writable handler (socket_writeable)\<close>

text \<open>
  What the writable handler is given: the clock, the status and byte count of the
  transport's \<^verbatim>\<open>write\<close>, the length of the request the script produces when
  requests are dynamic, and the operating system's answers should it reconnect.
\<close>

record write_answer =
  w_now :: u64
  w_status :: status
  w_n :: u64
  w_length :: u64
  w_env :: sys_env

text \<open>
  The handler in three parts: \<open>send_start\<close> is the block that begins a send
  (\<^verbatim>\<open>c->start\<close>, the batch snapshot and \<^verbatim>\<open>pending\<close>), \<open>write_request\<close> is the handler
  from the request of a dynamic script on, and \<open>socket_writeable\<close> asks the pacer
  first when no send is in progress.
\<close>

definition send_start :: "config \<Rightarrow> u64 \<Rightarrow> connection \<Rightarrow> connection" where
  "send_start cfg now c =
     (let c1 = c\<lparr>start := now\<rparr>;
          c2 = (if \<not> has_pending c1 then
                  c1\<lparr>actual_latency_start := start c1,
                     complete_at_last_batch_start := complete c1,
                     has_pending := True\<rparr>
                else c1)
      in c2\<lparr>pending := cfg_pipeline cfg\<rparr>)"

definition write_request ::
  "config \<Rightarrow> write_answer \<Rightarrow> thread \<Rightarrow> connection \<Rightarrow> (thread \<times> connection) outcome" where
  "write_request cfg a t c =
     (let c1 = (if written c = 0 \<and> cfg_dynamic cfg then c\<lparr>length_req := w_length a\<rparr> else c);
          c2 = (if written c1 = 0 then send_start cfg (w_now a) c1 else c1)
      in case w_status a of
           OK \<Rightarrow>
             (let c3 = c2\<lparr>written := written c2 + w_n a\<rparr>
              in if written c3 = length_req c3 then
                   Continue (t\<lparr>loop := aeDeleteFileEvent (loop t) (fd c3) AE_WRITABLE\<rparr>,
                             c3\<lparr>written := 0\<rparr>)
                 else Continue (t, c3))
         | ERROR \<Rightarrow>
             drop_fd (reconnect_socket (w_env a)
               (t\<lparr>errs := (errs t)\<lparr>write_e := write_e (errs t) + 1\<rparr>\<rparr>) c2)
         | RETRY \<Rightarrow> Continue (t, c2))"

definition socket_writeable ::
  "config \<Rightarrow> fpu \<Rightarrow> write_answer \<Rightarrow> thread \<Rightarrow> connection \<Rightarrow> (thread \<times> connection) outcome" where
  "socket_writeable cfg fp a t c =
     (if written c = 0 then
        (let (time_usec_to_wait, c1) = usec_to_next_send fp (w_now a) c
         in if time_usec_to_wait \<noteq> 0 then
              (case msec_to_wait fp time_usec_to_wait of
                 Continue ms \<Rightarrow>
                   Continue
                     (t\<lparr>loop := aeCreateTimeEvent
                                   (aeDeleteFileEvent (loop t) (fd c1) AE_WRITABLE) ms
                                   Delay_request\<rparr>,
                      c1)
               | Exit n \<Rightarrow> Exit n | Abort \<Rightarrow> Abort | Undefined \<Rightarrow> Undefined)
            else write_request cfg a t (c1\<lparr>latest_write := w_now a\<rparr>))
      else write_request cfg a t c)"

section \<open>The readable handler (socket_readable)\<close>

text \<open>
  One answer of the transport to a \<^verbatim>\<open>read\<close>: its status and byte count, the responses
  the parser completes in these bytes (each one runs \<^verbatim>\<open>response_complete\<close>), the count
  \<^verbatim>\<open>http_parser_execute\<close> returns, what \<^verbatim>\<open>readable()\<close> reports afterwards, and the
  operating system's answers should the handler reconnect.
\<close>

record read_answer =
  r_status :: status
  r_n :: u64
  r_messages :: "message list"
  r_parsed :: u64
  r_readable :: u64
  r_env :: sys_env

fun http_parser_execute ::
  "config \<Rightarrow> fpu \<Rightarrow> message list \<Rightarrow> thread \<Rightarrow> connection \<Rightarrow> (thread \<times> connection) outcome" where
  "http_parser_execute cfg fp [] t c = Continue (t, c)"
| "http_parser_execute cfg fp (m # ms) t c =
     (case response_complete cfg fp m t c of
        Continue (t', c') \<Rightarrow> http_parser_execute cfg fp ms t' c'
      | Exit n \<Rightarrow> Exit n | Abort \<Rightarrow> Abort | Undefined \<Rightarrow> Undefined)"

definition read_error :: "sys_env \<Rightarrow> thread \<Rightarrow> connection \<Rightarrow> (thread \<times> connection) outcome" where
  "read_error env t c =
     drop_fd (reconnect_socket env (t\<lparr>errs := (errs t)\<lparr>read := read (errs t) + 1\<rparr>\<rparr>) c)"

text \<open>
  The body of the \<^verbatim>\<open>do ... while\<close> loop with its condition: \<open>Again\<close> when the loop
  goes round once more, \<open>Return\<close> when the handler returns.
\<close>

datatype 'a iteration = Again 'a | Return 'a

definition read_once ::
  "config \<Rightarrow> fpu \<Rightarrow> read_answer \<Rightarrow> thread \<Rightarrow> connection
     \<Rightarrow> (thread \<times> connection) iteration outcome" where
  "read_once cfg fp a t c =
     (case r_status a of
        RETRY \<Rightarrow> Continue (Return (t, c))
      | ERROR \<Rightarrow>
          (case read_error (r_env a) t c of
             Continue tc \<Rightarrow> Continue (Return tc)
           | Exit n \<Rightarrow> Exit n | Abort \<Rightarrow> Abort | Undefined \<Rightarrow> Undefined)
      | OK \<Rightarrow>
          (case http_parser_execute cfg fp (r_messages a) t c of
             Continue (t1, c1) \<Rightarrow>
               if r_parsed a \<noteq> r_n a then
                 (case read_error (r_env a) t1 c1 of
                    Continue tc \<Rightarrow> Continue (Return tc)
                  | Exit n \<Rightarrow> Exit n | Abort \<Rightarrow> Abort | Undefined \<Rightarrow> Undefined)
               else
                 let t2 = t1\<lparr>bytes := bytes t1 + r_n a\<rparr>
                 in if r_n a = RECVBUF \<and> r_readable a > 0 then Continue (Again (t2, c1))
                    else Continue (Return (t2, c1))
           | Exit n \<Rightarrow> Exit n | Abort \<Rightarrow> Abort | Undefined \<Rightarrow> Undefined))"

text \<open>
  The handler, given the answers of the transport to its successive reads; it also
  returns the answers it did not ask for. When the answers run out the socket has
  nothing more to deliver and the read answers \<^verbatim>\<open>RETRY\<close>.
\<close>

fun socket_readable ::
  "config \<Rightarrow> fpu \<Rightarrow> read_answer list \<Rightarrow> thread \<Rightarrow> connection
     \<Rightarrow> (thread \<times> connection) outcome \<times> read_answer list" where
  "socket_readable cfg fp [] t c = (Continue (t, c), [])"
| "socket_readable cfg fp (a # as) t c =
     (case read_once cfg fp a t c of
        Continue (Again (t', c')) \<Rightarrow> socket_readable cfg fp as t' c'
      | Continue (Return tc) \<Rightarrow> (Continue tc, as)
      | Exit n \<Rightarrow> (Exit n, as) | Abort \<Rightarrow> (Abort, as) | Undefined \<Rightarrow> (Undefined, as))"

section \<open>Phases and the warmup barrier (thread_main, phase_move, inter_thread_sync)\<close>

definition warmup_timeout :: "config \<Rightarrow> u64" where
  "warmup_timeout cfg =
     (if cfg_warmup_timeout cfg \<noteq> 0 then cfg_warmup_timeout cfg
      else
        let w = cfg_connections cfg * 600000 div 350000
        in if w < 1000 then 1000 else w)"

text \<open>A connection as \<^verbatim>\<open>zcalloc\<close> leaves it.\<close>

definition zero_connection :: connection where
  "zero_connection =
     \<lparr>fd = 0, connect_mask = 0, complete_at_last_batch_start = 0, start = 0, length_req = 0,
      written = 0, pending = 0, actual_latency_start = 0, is_connected = False,
      has_pending = False, latest_should_send_time = 0, latest_expected_start = 0,
      latest_connect = 0, latest_write = 0, throughput = 0, catch_up_throughput = 0,
      complete = 0, caught_up = False, catch_up_start_time = 0,
      complete_at_catch_up_start = 0, thread_start = 0\<rparr>"

text \<open>
  A worker as \<^verbatim>\<open>main\<close> sets it up before it starts the thread: the memory is
  zeroed, then the loop, the connection count, the rate and the deadline are stored.
  The table size is passed to \<^verbatim>\<open>aeCreateEventLoop\<close> as an \<^verbatim>\<open>int\<close>.
\<close>

definition zero_thread :: thread where
  "zero_thread =
     \<lparr>loop = aeCreateEventLoop 0, connections = 0, phase_normal_start = 0,
      phase = PHASE_INIT, stop_at = 0, t_complete = 0, requests = 0, bytes = 0,
      t_start = 0, latency_histogram = [], u_latency_histogram = [],
      errs = \<lparr>connect = 0, read = 0, write_e = 0, timeout = 0, status = 0,
               established = 0, reconnect = 0\<rparr>,
      cs = [], t_throughput = 0, effects = []\<rparr>"

definition main_thread :: "config \<Rightarrow> fpu \<Rightarrow> u64 \<Rightarrow> thread" where
  "main_thread cfg fp now =
     zero_thread
       \<lparr>loop := aeCreateEventLoop (sint (ucast (10 + cfg_connections cfg * 3) :: cint)),
        connections := cfg_connections cfg div cfg_threads cfg,
        t_throughput :=
          rnd fp (rnd fp (real (unat (cfg_rate cfg))) / rnd fp (real (unat (cfg_threads cfg)))),
        stop_at := now + cfg_duration cfg * 1000000\<rparr>"

text \<open>
  \<^verbatim>\<open>thread_main\<close> up to the call of \<^verbatim>\<open>aeMain\<close>: the connections are set up and the
  timers armed. \<open>len\<close> is the length of the static request. A delay is passed to the
  loop as a \<^verbatim>\<open>long long\<close>.
\<close>

definition thread_main :: "config \<Rightarrow> fpu \<Rightarrow> u64 \<Rightarrow> u64 \<Rightarrow> thread \<Rightarrow> thread" where
  "thread_main cfg fp len now t =
     (let n = unat (connections t);
          tp = rnd fp (rnd fp (t_throughput t / 1000000) / rnd fp (real n));
          c0 = zero_connection\<lparr>length_req := (if cfg_dynamic cfg then 0 else len),
                 throughput := tp, catch_up_throughput := rnd fp (tp * 2),
                 complete := 0, caught_up := True\<rparr>;
          l1 = foldl (\<lambda>l i. aeCreateTimeEvent l (sint (word_of_nat i * 5 :: u64))
                                Delayed_initial_connect) (loop t) [0..<n];
          l2 = aeCreateTimeEvent l1 STOP_CHECK_INTERNAL_MS Check_stop;
          l3 = (if cfg_warmup cfg then
                  aeCreateTimeEvent l2 (sint (warmup_timeout cfg)) Warmup_timed_out
                else l2)
      in t\<lparr>cs := replicate n c0, loop := l3, t_start := now,
           phase := (if cfg_warmup cfg then PHASE_WARMUP else PHASE_NORMAL)\<rparr>)"

definition phase_move :: "thread \<Rightarrow> phase_t \<Rightarrow> u64 \<Rightarrow> thread" where
  "phase_move t p now =
     (let t1 = (if phase t = PHASE_WARMUP \<and> p = PHASE_NORMAL then
                  let l1 = foldl
                             (\<lambda>l c. if is_connected c then
                                      snd (aeCreateFileEvent
                                             (snd (aeCreateFileEvent l (fd c) AE_READABLE
                                                     Socket_readable))
                                             (fd c) AE_WRITABLE Socket_writeable)
                                    else l)
                             (loop t) (cs t);
                      l2 = aeCreateTimeEvent l1 CALIBRATE_DELAY_MS Calibrate
                  in t\<lparr>loop := l2, t_start := now, phase_normal_start := now\<rparr>
                else t)
      in t1\<lparr>phase := p\<rparr>)"

definition warmup_timed_out :: "u64 \<Rightarrow> thread \<Rightarrow> int \<times> thread" where
  "warmup_timed_out now t = (AE_NOMORE, phase_move t PHASE_NORMAL now)"

definition inter_thread_sync :: "globals \<Rightarrow> u64 \<Rightarrow> thread \<Rightarrow> int \<times> thread" where
  "inter_thread_sync g now t =
     (let t1 = (if g_is_ready g then phase_move t PHASE_NORMAL now else t)
      in (if phase t1 = PHASE_NORMAL then AE_NOMORE else THREAD_SYNC_INTERVAL_MS, t1))"

section \<open>Running handlers in sequence\<close>

text \<open>
  The value a handler returns with, if it returns.
\<close>

definition continued :: "'a outcome \<Rightarrow> 'a option" where
  "continued r =
     (case r of Continue x \<Rightarrow> Some x | Exit n \<Rightarrow> None | Abort \<Rightarrow> None | Undefined \<Rightarrow> None)"

text \<open>
  Running one handler after another, while the process goes on.
\<close>

definition and_then :: "'a outcome \<Rightarrow> ('a \<Rightarrow> 'b outcome) \<Rightarrow> 'b outcome" where
  "and_then r f =
     (case r of Continue x \<Rightarrow> f x | Exit n \<Rightarrow> Exit n | Abort \<Rightarrow> Abort | Undefined \<Rightarrow> Undefined)"

section \<open>The states a run can reach\<close>

subsection \<open>Batches\<close>

text \<open>
  The states of a connection and its worker that are reached from a connection with
  no batch in flight by runs of the writable handler and by completed responses,
  where a response completes only while the current batch has a response pending.
\<close>

inductive batch_reach :: "config \<Rightarrow> fpu \<Rightarrow> thread \<Rightarrow> connection \<Rightarrow> bool"
  for cfg :: config and fp :: fpu where
  fresh: "pending c = 0 \<Longrightarrow> \<not> has_pending c \<Longrightarrow> batch_reach cfg fp t c"
| writeable:
    "batch_reach cfg fp t c \<Longrightarrow> socket_writeable cfg fp a t c = Continue (t', c')
       \<Longrightarrow> batch_reach cfg fp t' c'"
| response:
    "batch_reach cfg fp t c \<Longrightarrow> pending c \<noteq> 0
       \<Longrightarrow> response_complete cfg fp m t c = Continue (t', c')
       \<Longrightarrow> batch_reach cfg fp t' c'"

subsection \<open>Recovery from a transport error\<close>

text \<open>
  The state \<open>(t', c')\<close> a handler leaves when it has recovered connection \<open>c\<close> of
  worker \<open>t\<close> from an error: the events of the old descriptor are deleted, the
  transport and the descriptor are closed, one reconnect is counted, and a fresh
  connect is under way on the same connection. The fresh descriptor is registered
  when \<^verbatim>\<open>connect\<close> does not fail at once and the descriptor fits the event table;
  otherwise it is closed again and a connect error is counted.
\<close>

definition reconnected :: "sys_env \<Rightarrow> thread \<Rightarrow> connection \<Rightarrow> thread \<Rightarrow> connection \<Rightarrow> bool" where
  "reconnected env t c t' c' \<longleftrightarrow>
     (let l1 = aeDeleteFileEvent (loop t) (fd c) (AE_WRITABLE OR AE_READABLE);
          registered = (\<not> connect_refused env \<and> sock_fd env < setsize (loop t))
      in reconnect (errs t') = reconnect (errs t) + 1
         \<and> loop t' =
             (if registered
              then snd (aeCreateFileEvent l1 (sock_fd env) (AE_READABLE OR AE_WRITABLE)
                          Socket_connected)
              else l1)
         \<and> effects t' =
             (if registered then [] else [Close (sock_fd env)])
             @ [Close (fd c), Sock_close (fd c)] @ effects t
         \<and> connect (errs t') = connect (errs t) + (if registered then 0 else 1)
         \<and> \<not> is_connected c'
         \<and> fd c' = (if registered then sock_fd env else fd c))"

subsection \<open>The handshake\<close>

text \<open>
  The readiness set that the retry hints ask for, as a mask of the event loop.
\<close>

definition hinted :: "cint \<Rightarrow> cint" where
  "hinted rf =
     (if rf AND E_WANT_READ \<noteq> 0 then AE_READABLE else 0)
     OR (if rf AND E_WANT_WRITE \<noteq> 0 then AE_WRITABLE else 0)"

text \<open>
  The readiness events the connection's descriptor is subscribed to.
\<close>

definition subscribed :: "thread \<Rightarrow> connection \<Rightarrow> cint" where
  "subscribed t c = fe_mask (events (loop t) (fd c)) AND (AE_READABLE OR AE_WRITABLE)"

text \<open>
  \<^verbatim>\<open>connect_mask\<close> is the connection's own record of that subscription (wrk.h); the
  \<^verbatim>\<open>RETRY\<close> branch of the connect handler computes what to add and what to delete
  from it, never from the event table. The record is accurate when the descriptor is
  in the event table and \<^verbatim>\<open>connect_mask\<close> is the set of readiness events the descriptor
  is subscribed to.
\<close>

definition masks_agree :: "thread \<Rightarrow> connection \<Rightarrow> bool" where
  "masks_agree t c \<longleftrightarrow>
     0 \<le> fd c \<and> fd c < setsize (loop t)
     \<and> connect_mask c \<in> {0, 1, 2, 3}
     \<and> subscribed t c = connect_mask c"

subsection \<open>The workers of a run\<close>

text \<open>
  The configurations \<^verbatim>\<open>parse_args\<close> accepts.
\<close>

definition valid_config :: "config \<Rightarrow> bool" where
  "valid_config cfg \<longleftrightarrow>
     cfg_threads cfg \<noteq> 0 \<and> cfg_duration cfg \<noteq> 0 \<and> cfg_connections cfg \<noteq> 0
     \<and> cfg_threads cfg \<le> cfg_connections cfg \<and> cfg_rate cfg \<noteq> 0"

text \<open>
  The barrier variables when the process starts.
\<close>

definition g_start :: globals where
  "g_start = \<lparr>g_ready_threads = 0, g_is_ready = False\<rparr>"

text \<open>
  One handler of one worker runs: it works on a connection of the worker and writes
  it back, it reads and writes the barrier variables, and it returns to the event
  loop. A handler is one step: the only shared variables are the barrier counter,
  which \<^verbatim>\<open>socket_connected\<close> changes by one atomic fetch-and-add, and the flag it sets
  from the value that operation returned.
\<close>

definition with_connection :: "thread \<Rightarrow> nat \<Rightarrow> connection \<Rightarrow> thread" where
  "with_connection t j c = t\<lparr>cs := (cs t)[j := c]\<rparr>"

inductive worker_step ::
  "config \<Rightarrow> fpu \<Rightarrow> globals \<times> thread \<Rightarrow> globals \<times> thread \<Rightarrow> bool"
  for cfg :: config and fp :: fpu where
  initial_connect:
    "j < length (cs t)
       \<Longrightarrow> delayed_initial_connect now env t (cs t ! j) = Continue (rc, t', c')
       \<Longrightarrow> worker_step cfg fp (g, t) (g, with_connection t' j c')"
| connected:
    "j < length (cs t)
       \<Longrightarrow> socket_connected cfg a g t (cs t ! j) = Continue (g', t', c')
       \<Longrightarrow> worker_step cfg fp (g, t) (g', with_connection t' j c')"
| writeable:
    "j < length (cs t)
       \<Longrightarrow> socket_writeable cfg fp wa t (cs t ! j) = Continue (t', c')
       \<Longrightarrow> worker_step cfg fp (g, t) (g, with_connection t' j c')"
| delayed:
    "j < length (cs t)
       \<Longrightarrow> delay_request fp now t (cs t ! j) = Continue (rc, t', c')
       \<Longrightarrow> worker_step cfg fp (g, t) (g, with_connection t' j c')"
| readable:
    "j < length (cs t)
       \<Longrightarrow> socket_readable cfg fp ras t (cs t ! j) = (Continue (t', c'), rest)
       \<Longrightarrow> worker_step cfg fp (g, t) (g, with_connection t' j c')"
| timed_out:
    "warmup_timed_out now t = (rc, t') \<Longrightarrow> worker_step cfg fp (g, t) (g, t')"
| sync:
    "inter_thread_sync g now t = (rc, t') \<Longrightarrow> worker_step cfg fp (g, t) (g, t')"

text \<open>
  The process: the barrier variables and the workers. A run starts with the
  \<^verbatim>\<open>cfg.threads\<close> workers that \<^verbatim>\<open>main\<close> creates and \<^verbatim>\<open>thread_main\<close> sets up, and goes
  on by steps of any worker in any order.
\<close>

record system =
  glob :: globals
  workers :: "thread list"

inductive reachable :: "config \<Rightarrow> fpu \<Rightarrow> system \<Rightarrow> bool"
  for cfg :: config and fp :: fpu where
  start:
    "length ps = unat (cfg_threads cfg)
       \<Longrightarrow> reachable cfg fp
            \<lparr>glob = g_start,
             workers = map (\<lambda>(len, now0, now). thread_main cfg fp len now
                                                  (main_thread cfg fp now0)) ps\<rparr>"
| step:
    "reachable cfg fp s \<Longrightarrow> i < length (workers s)
       \<Longrightarrow> worker_step cfg fp (glob s, workers s ! i) (g', t')
       \<Longrightarrow> reachable cfg fp \<lparr>glob = g', workers = (workers s)[i := t']\<rparr>"

text \<open>
  A worker has established as many connections as it owns.
\<close>

definition ready :: "thread \<Rightarrow> bool" where
  "ready t \<longleftrightarrow> unat (connections t) \<le> established (errs t)"

text \<open>
  Two states of a worker with the same connection count and established count.
\<close>

definition same_count :: "thread \<Rightarrow> thread \<Rightarrow> bool" where
  "same_count t t' \<longleftrightarrow>
     connections t' = connections t \<and> established (errs t') = established (errs t)"

text \<open>
  The barrier counter counts the workers that are ready, and the flag is set exactly
  when the counter equals the number of workers.
\<close>

definition barrier_inv :: "config \<Rightarrow> system \<Rightarrow> bool" where
  "barrier_inv cfg s \<longleftrightarrow>
     length (workers s) = unat (cfg_threads cfg)
     \<and> g_ready_threads (glob s) = int (length (filter ready (workers s)))
     \<and> (g_is_ready (glob s) \<longleftrightarrow> g_ready_threads (glob s) = uint (cfg_threads cfg))"

section \<open>Example inputs\<close>

text \<open>
  A configuration with warmup and no explicit warmup timeout, and the same for a
  single worker with a single connection.
\<close>

definition cfg_example :: config where
  "cfg_example =
     \<lparr>cfg_threads = 2, cfg_connections = 1000000, cfg_duration = 10, cfg_pipeline = 1,
      cfg_rate = 1000, cfg_warmup_timeout = 0, cfg_dynamic = False,
      cfg_record_all_responses = True, cfg_warmup = True\<rparr>"

definition cfg_small :: config where
  "cfg_small = cfg_example\<lparr>cfg_threads := 1, cfg_connections := 1\<rparr>"

text \<open>
  A connection paced at one request per millisecond that has completed three
  requests; \<open>c_behind\<close> fell behind its schedule at time 4500, \<open>c_idle\<close> has a
  descriptor and a request of 40 bytes to send, \<open>c_in_flight\<close> has one request in
  flight, sent at time 3800.
\<close>

definition c_example :: connection where
  "c_example =
     zero_connection\<lparr>thread_start := 1000, throughput := 1 / 1000,
       catch_up_throughput := 1 / 500, complete := 3, caught_up := True\<rparr>"

definition c_behind :: connection where
  "c_behind =
     c_example\<lparr>caught_up := False, catch_up_start_time := 4500,
       complete_at_catch_up_start := 1\<rparr>"

definition c_idle :: connection where
  "c_idle = c_example\<lparr>fd := 5, length_req := 40\<rparr>"

definition c_in_flight :: connection where
  "c_in_flight =
     c_example\<lparr>fd := 5, pending := 1, has_pending := True,
       complete_at_last_batch_start := 3, actual_latency_start := 3800\<rparr>"

text \<open>
  The operating system hands out descriptor 7 and the connect is in progress; in
  \<open>no_socket\<close> it has no descriptor left and \<^verbatim>\<open>socket\<close> fails.
\<close>

definition env_example :: sys_env where
  "env_example =
     \<lparr>sock_fd = 7, bind_exits = False, connect_refused = False, connect_now = 6000\<rparr>"

definition no_socket :: sys_env where
  "no_socket = env_example\<lparr>sock_fd := - 1\<rparr>"

text \<open>
  A worker with one connection and an event table of 40 descriptors, and the
  single worker of \<open>cfg_small\<close> as \<^verbatim>\<open>thread_main\<close> starts it.
\<close>

definition t_example :: thread where
  "t_example =
     zero_thread\<lparr>loop := aeCreateEventLoop 40, connections := 1, stop_at := 10000000\<rparr>"

definition w_start :: thread where
  "w_start = thread_main cfg_small exact_fpu 0 0 (main_thread cfg_small exact_fpu 0)"

text \<open>
  A response completed at time 3900, before the start time 4000 that the schedule
  gives to the request (the wall clock has been set back between the send and the
  response), and a response completed at time 5200.
\<close>

definition early_response :: message where
  "early_response =
     \<lparr>msg_now = 3900, status_code = 200, keep_alive = True, msg_env = env_example\<rparr>"


text \<open>
  A read of 100 bytes, fewer than the buffer holds, after which the transport still
  reports 5 buffered bytes; a write that the transport accepts whole at time 5000.
\<close>

definition short_read :: read_answer where
  "short_read =
     \<lparr>r_status = OK, r_n = 100, r_messages = [], r_parsed = 100, r_readable = 5,
      r_env = env_example\<rparr>"

definition write_ok :: write_answer where
  "write_ok =
     \<lparr>w_now = 5000, w_status = OK, w_n = 40, w_length = 40, w_env = env_example\<rparr>"

text \<open>
  Answers of the transport's \<^verbatim>\<open>connect\<close>: call again when the socket is readable,
  and success.
\<close>

definition retry_read :: connect_answer where
  "retry_read = \<lparr>ca_status = RETRY, retry_flags = E_WANT_READ, ca_env = env_example\<rparr>"

definition connect_ok :: connect_answer where
  "connect_ok = \<lparr>ca_status = OK, retry_flags = 0, ca_env = env_example\<rparr>"

subsection \<open>A reconnect while the pacer waits\<close>

text \<open>
  A run without warmup, with the worker in its measured phase.
\<close>

definition cfg_plain :: config where
  "cfg_plain = cfg_example\<lparr>cfg_warmup := False\<rparr>"

definition t_normal :: thread where
  "t_normal = t_example\<lparr>phase := PHASE_NORMAL\<rparr>"

text \<open>
  The connection is registered on descriptor 5 and its connect succeeds.
\<close>

definition connected_run :: "(globals \<times> thread \<times> connection) outcome" where
  "connected_run =
     and_then (connect_socket (env_example\<lparr>sock_fd := 5\<rparr>) t_normal c_example)
       (\<lambda>(new_fd, t, c). socket_connected cfg_plain connect_ok g_start t c)"

text \<open>
  The descriptor becomes writable at time 3000, before the next request is due: the
  writable handler drops WRITABLE and arms the \<^verbatim>\<open>delay_request\<close> timer.
\<close>

definition waiting_run :: "(globals \<times> thread \<times> connection) outcome" where
  "waiting_run =
     and_then connected_run
       (\<lambda>(g, t, c).
          and_then (socket_writeable cfg_plain exact_fpu (write_ok\<lparr>w_now := 3000\<rparr>) t c)
            (\<lambda>(t, c). Continue (g, t, c)))"

text \<open>
  While the timer is pending a read fails: the readable handler reconnects (the new
  socket is descriptor 7), and the new connect answers \<^verbatim>\<open>RETRY\<close> hinting
  \<^verbatim>\<open>E_WANT_READ\<close>.
\<close>

definition reconnect_run :: "(globals \<times> thread \<times> connection) outcome" where
  "reconnect_run =
     and_then waiting_run
       (\<lambda>(g, t, c).
          and_then (fst (socket_readable cfg_plain exact_fpu [short_read\<lparr>r_status := ERROR\<rparr>]
                           t c))
            (\<lambda>(t, c). socket_connected cfg_plain retry_read g t c))"

text \<open>
  The timer fires at time 5000, when the next request is due, and the connect answers
  \<^verbatim>\<open>RETRY\<close> hinting \<^verbatim>\<open>E_WANT_READ\<close> once more.
\<close>

definition stale_timer_run :: "(globals \<times> thread \<times> connection) outcome" where
  "stale_timer_run =
     and_then reconnect_run
       (\<lambda>(g, t, c).
          and_then (delay_request exact_fpu 5000 t c)
            (\<lambda>(rc, t, c). socket_connected cfg_plain retry_read g t c))"

text \<open>
  What a run leaves of the handshake: \<^verbatim>\<open>connect_mask\<close>, the readiness events the
  descriptor is subscribed to, and whether the \<^verbatim>\<open>delay_request\<close> timer is pending.
\<close>

definition handshake_masks ::
  "(globals \<times> thread \<times> connection) outcome \<Rightarrow> (cint \<times> cint \<times> bool) option" where
  "handshake_masks r =
     map_option
       (\<lambda>(g, t, c). (connect_mask c, subscribed t c,
                      (2, Delay_request) \<in> set (timeEvents (loop t))))
       (continued r)"

section \<open>Properties\<close>

subsection \<open>Aggregator\<close>

lemma nonzero_starts_Nil: "nonzero_starts [] = {}"
  by (simp add: nonzero_starts_def)

lemma nonzero_starts_Cons:
  "nonzero_starts (t # ts) =
     (if phase_normal_start t = 0 then nonzero_starts ts
      else insert (phase_normal_start t) (nonzero_starts ts))"
  by (auto simp: nonzero_starts_def)

lemma finite_nonzero_starts: "finite (nonzero_starts ts)"
  by (simp add: nonzero_starts_def)

lemma Min_insert_absorb:
  fixes m :: "'a::linorder"
  assumes "finite B" "b \<in> B" "b \<le> m"
  shows "Min (insert m B) = Min B"
proof -
  from assms have "B \<noteq> {}" by auto
  with assms have "Min (insert m B) = min m (Min B)" by simp
  moreover from assms have "Min B \<le> m" by (meson Min_le order_trans)
  ultimately show ?thesis by (simp add: min_def)
qed

lemma phase_normal_start_min_scan:
  "phase_normal_start_min m ts =
     (let S = nonzero_starts ts \<union> (if m = 0 then {} else {m})
      in if S = {} then 0 else Min S)"
proof (induction ts arbitrary: m)
  case Nil
  then show ?case by (simp add: nonzero_starts_Nil)
next
  case (Cons t ts)
  let ?p = "phase_normal_start t"
  let ?S = "nonzero_starts ts"
  have fin: "finite ?S" by (rule finite_nonzero_starts)
  have IH0: "phase_normal_start_min 0 ts = (if ?S = {} then 0 else Min ?S)"
    using Cons.IH [of 0] by simp
  have IH1: "phase_normal_start_min k ts = Min (insert k ?S)" if "k \<noteq> 0" for k
    using Cons.IH [of k] that by simp
  show ?case
  proof (cases "m = 0")
    case True
    then show ?thesis
      by (cases "?p = 0") (simp_all add: IH0 IH1 nonzero_starts_Cons)
  next
    case m: False
    show ?thesis
    proof (cases "?p \<noteq> 0 \<and> ?p < m")
      case True
      have "Min (insert m (insert ?p ?S)) = Min (insert ?p ?S)"
        by (rule Min_insert_absorb [where b = ?p]) (use True fin in auto)
      moreover have "phase_normal_start_min m (t # ts) = Min (insert ?p ?S)"
        using True m by (simp add: IH1 del: Min_insert)
      moreover have "nonzero_starts (t # ts) \<union> {m} = insert m (insert ?p ?S)"
        using True by (auto simp: nonzero_starts_Cons)
      ultimately show ?thesis
        using m by (simp del: Min_insert)
    next
      case False
      have eq: "phase_normal_start_min m (t # ts) = Min (insert m ?S)"
        using False m by (auto simp: IH1 simp del: Min_insert)
      show ?thesis
      proof (cases "?p = 0")
        case True
        then have "nonzero_starts (t # ts) \<union> {m} = insert m ?S"
          by (auto simp: nonzero_starts_Cons)
        with eq m show ?thesis by (simp del: Min_insert)
      next
        case p: False
        have "Min (insert ?p (insert m ?S)) = Min (insert m ?S)"
          by (rule Min_insert_absorb [where b = m]) (use p False fin in auto)
        moreover have "nonzero_starts (t # ts) \<union> {m} = insert ?p (insert m ?S)"
          using p by (auto simp: nonzero_starts_Cons)
        ultimately show ?thesis
          using eq m by (simp del: Min_insert)
      qed
    qed
  qed
qed

text \<open>
  C8. After the join loop the runtime base is the least nonzero
  \<^verbatim>\<open>phase_normal_start\<close> of the workers when some worker recorded one, and the
  orchestrator's initial \<^verbatim>\<open>start\<close> otherwise; workers whose value is 0 take no part
  in the minimum.
\<close>

theorem runtime_start_is_min_nonzero:
  "runtime_start start0 ts =
     (if nonzero_starts ts = {} then start0 else Min (nonzero_starts ts))"
proof -
  have "nonzero_starts ts \<noteq> {} \<Longrightarrow> Min (nonzero_starts ts) \<noteq> 0"
    using Min_in [OF finite_nonzero_starts, of ts]
    by (auto simp: nonzero_starts_def)
  then show ?thesis
    by (simp add: runtime_start_def phase_normal_start_min_scan Let_def)
qed

subsection \<open>Rate pacer\<close>

text \<open>
  C1. The pacer follows the two-schedule rule. With \<open>T\<close> the primary schedule
  \<^verbatim>\<open>thread_start + complete / throughput\<close>: if \<open>T > now\<close>, \<^verbatim>\<open>caught_up\<close> is set and the
  nonzero wait \<open>T - now\<close> is returned. Otherwise a connection that was caught up
  takes the fall-behind snapshot, the catch-up schedule \<open>T'\<close> is computed from the
  snapshot, and the function returns the nonzero wait \<open>T' - now\<close> when \<open>T' > now\<close>;
  else it records \<^verbatim>\<open>latest_should_send_time = now\<close> and \<^verbatim>\<open>latest_expected_start\<close> (the
  catch-up time \<open>T'\<close>) and returns 0, which tells the caller to send.
\<close>

theorem usec_to_next_send_two_schedules:
  "let T = sched fp (thread_start c) (complete c) (throughput c);
       c1 = (if caught_up c then
               c\<lparr>caught_up := False, catch_up_start_time := now,
                 complete_at_catch_up_start := complete c\<rparr>
             else c);
       T' = sched fp (catch_up_start_time c1) (complete c1 - complete_at_catch_up_start c1)
              (catch_up_throughput c1)
   in (T > now \<longrightarrow>
         usec_to_next_send fp now c = (T - now, c\<lparr>caught_up := True\<rparr>) \<and> T - now \<noteq> 0)
    \<and> (\<not> T > now \<and> T' > now \<longrightarrow>
         usec_to_next_send fp now c = (T' - now, c1) \<and> T' - now \<noteq> 0)
    \<and> (\<not> T > now \<and> \<not> T' > now \<longrightarrow>
         usec_to_next_send fp now c =
           (0, c1\<lparr>latest_should_send_time := now, latest_expected_start := T'\<rparr>))"
  by (auto simp: usec_to_next_send_def Let_def)

theorem usec_to_next_send_two_schedules_witness:
  "usec_to_next_send exact_fpu 3000 c_example = (1000, c_example)
   \<and> usec_to_next_send exact_fpu 5000 c_behind = (500, c_behind)
   \<and> usec_to_next_send exact_fpu 5000 c_example =
       (0, c_example\<lparr>caught_up := False, catch_up_start_time := 5000,
             complete_at_catch_up_start := 3, latest_should_send_time := 5000,
             latest_expected_start := 5000\<rparr>)"
  using usec_to_next_send_two_schedules [of exact_fpu c_example 3000]
    usec_to_next_send_two_schedules [of exact_fpu c_behind 5000]
    usec_to_next_send_two_schedules [of exact_fpu c_example 5000]
  by (simp add: Let_def c_example_def c_behind_def zero_connection_def exact_fpu_def)

subsection \<open>Warmup timeout\<close>

lemma sint_u64_small:
  fixes w :: u64
  assumes "unat w < 2 ^ 63"
  shows "sint w = int (unat w)"
proof -
  from assms have "int (unat w) < int (2 ^ 63)" by (simp only: of_nat_less_iff)
  then have "uint w < 2 ^ 63" by simp
  then have "signed_take_bit 63 (uint w) = uint w"
    by (intro signed_take_bit_int_eq_self) (auto intro: order_trans [of _ 0])
  then show ?thesis by (simp add: sint_uint)
qed

lemma unat_default_timeout:
  "unat (c * 600000 div 350000 :: u64) = (unat c * 600000 mod 2 ^ 64) div 350000"
  by (simp add: unat_div unat_word_ariths)

lemma default_timeout_small: "unat (c * 600000 div 350000 :: u64) < 2 ^ 63"
proof -
  have "(unat c * 600000 mod 2 ^ 64) div 350000 \<le> (2 ^ 64 :: nat) div 350000"
    by (rule div_le_mono) simp
  then show ?thesis unfolding unat_default_timeout by simp
qed

lemma sint_warmup_timeout_default:
  assumes "cfg_warmup_timeout cfg = 0"
  shows "sint (warmup_timeout cfg)
       = max 1000 (int ((unat (cfg_connections cfg) * 600000 mod 2 ^ 64) div 350000))"
proof -
  let ?w = "cfg_connections cfg * 600000 div 350000"
  have lt: "?w < 1000 \<longleftrightarrow> unat ?w < 1000"
    by (simp add: word_less_nat_alt)
  have "sint ?w = int (unat ?w)"
    by (rule sint_u64_small) (rule default_timeout_small)
  moreover have "sint (1000 :: u64) = 1000" by simp
  ultimately show ?thesis
    using assms lt unfolding warmup_timeout_def Let_def
    by (simp add: unat_default_timeout max_def)
qed

lemma timeEvents_create [simp]:
  "timeEvents (aeCreateTimeEvent l ms p) = timeEvents l @ [(ms, p)]"
  by (simp add: aeCreateTimeEvent_def)

lemma timeEvents_stagger:
  "[e \<leftarrow> timeEvents (foldl (\<lambda>l i. aeCreateTimeEvent l (f i) Delayed_initial_connect) l0 is).
      snd e = Warmup_timed_out]
   = [e \<leftarrow> timeEvents l0. snd e = Warmup_timed_out]"
  by (induction "is" arbitrary: l0) simp_all

text \<open>
  C5. With warmup enabled and no warmup timeout configured, \<^verbatim>\<open>thread_main\<close> arms
  exactly one warmup timer, and its delay in milliseconds is the larger of 1000 and
  \<^verbatim>\<open>cfg.connections * 600000 / 350000\<close>, computed by integer division from the total
  connection count. The product is a \<^verbatim>\<open>uint64_t\<close>: the delay is the mathematical
  value whenever \<open>connections * 600000\<close> is below \<open>2^64\<close>.
\<close>

theorem warmup_default_timeout:
  assumes "cfg_warmup cfg" and "cfg_warmup_timeout cfg = 0"
  shows
    "[e \<leftarrow> timeEvents (loop (thread_main cfg fp len now t)). snd e = Warmup_timed_out]
     = [e \<leftarrow> timeEvents (loop t). snd e = Warmup_timed_out]
       @ [(max 1000 (int ((unat (cfg_connections cfg) * 600000 mod 2 ^ 64) div 350000)),
           Warmup_timed_out)]
     \<and> (unat (cfg_connections cfg) * 600000 < 2 ^ 64 \<longrightarrow>
          [e \<leftarrow> timeEvents (loop (thread_main cfg fp len now t)). snd e = Warmup_timed_out]
          = [e \<leftarrow> timeEvents (loop t). snd e = Warmup_timed_out]
            @ [(max 1000 (int (unat (cfg_connections cfg) * 600000 div 350000)),
                Warmup_timed_out)])"
  using assms
  by (simp add: thread_main_def Let_def timeEvents_stagger sint_warmup_timeout_default)

theorem warmup_default_timeout_witness:
  "[e \<leftarrow> timeEvents (loop (thread_main cfg_example exact_fpu 0 0
                                (main_thread cfg_example exact_fpu 0))).
      snd e = Warmup_timed_out]
   = [(1714285, Warmup_timed_out)]"
  using warmup_default_timeout [of cfg_example exact_fpu 0 0 "main_thread cfg_example exact_fpu 0"]
  by (simp add: cfg_example_def main_thread_def zero_thread_def aeCreateEventLoop_def)

subsection \<open>Millisecond delays\<close>



lemma c_round_exact: "c_round (real n / 1000 + 1 / 2) = int (n div 1000) + 1"
proof -
  have "\<lfloor>real n / 1000 + 1\<rfloor> = \<lfloor>real n / 1000\<rfloor> + 1" by simp
  also have "\<lfloor>real n / 1000\<rfloor> = int (n div 1000)"
    using floor_divide_of_nat_eq [of n 1000, where ?'a = real] by simp
  finally show ?thesis
    by (simp add: c_round_def add.assoc)
qed

lemma round_msec_exact: "round_msec exact_fpu w = int (unat w div 1000) + 1"
  by (simp only: round_msec_def exact_fpu_def fpu.select_convs c_round_exact)



subsection \<open>What reconnecting leaves unchanged\<close>

lemma connect_socket_frame:
  assumes "connect_socket env t c = Continue (new_fd, t', c')"
  shows "latency_histogram t' = latency_histogram t"
    and "u_latency_histogram t' = u_latency_histogram t"
    and "pending c' = pending c" and "has_pending c' = has_pending c"
    and "established (errs t') = established (errs t)"
    and "connections t' = connections t" and "phase t' = phase t"
    and "fd c' = fd c \<or> fd c' = new_fd"
  using assms
  by (auto simp: connect_socket_def connect_error_def aeCreateFileEvent_def Let_def
      split: if_splits)

lemma reconnect_socket_frame:
  assumes "reconnect_socket env t c = Continue (new_fd, t', c')"
  shows "latency_histogram t' = latency_histogram t"
    and "u_latency_histogram t' = u_latency_histogram t"
    and "pending c' = pending c" and "has_pending c' = has_pending c"
    and "established (errs t') = established (errs t)"
    and "connections t' = connections t" and "phase t' = phase t"
  using assms connect_socket_frame [of env _ c new_fd t' c']
  by (auto simp: reconnect_socket_def Let_def)

lemma drop_fd_Continue:
  "drop_fd r = Continue (t', c') \<longleftrightarrow> (\<exists>new_fd. r = Continue (new_fd, t', c'))"
  by (auto simp: drop_fd_def split: outcome.splits)



subsection \<open>Corrected latency\<close>

lemma connect_socket_effects:
  "connect_socket env t c = Continue (new_fd, t', c') \<Longrightarrow> set (effects t) \<subseteq> set (effects t')"
  by (auto simp: connect_socket_def connect_error_def aeCreateFileEvent_def Let_def
      split: if_splits)

lemma reconnect_socket_effects:
  "reconnect_socket env t c = Continue (new_fd, t', c') \<Longrightarrow> set (effects t) \<subseteq> set (effects t')"
  by (auto simp: reconnect_socket_def Let_def dest!: connect_socket_effects)

text \<open>
  C2 (amended). The value that \<^verbatim>\<open>response_complete\<close> hands to the corrected
  histogram is always the difference \<^verbatim>\<open>now - (thread_start +
  complete_at_last_batch_start / throughput)\<close> that it computes first, negative or
  not; it is handed over when the run has not reached \<^verbatim>\<open>stop_at\<close> and the response
  is to be recorded. On the negative branch the start time recomputed from the
  current completion count is printed, and the recorded value is not changed.
\<close>

theorem response_complete_records_first_value:
  assumes "response_complete cfg fp m t c = Continue (t', c')"
  shows
    "let timing = msg_now m
           - sched fp (thread_start c) (complete_at_last_batch_start c) (throughput c)
     in latency_histogram t' =
          (if msg_now m < stop_at t
              \<and> (cfg_record_all_responses cfg \<or> pending c - 1 = 0 \<or> \<not> has_pending c)
           then timing # latency_histogram t
           else latency_histogram t)
        \<and> (msg_now m < stop_at t \<and> sint timing < 0 \<longrightarrow>
             Print_next_expected_latency_start
               (sched fp (thread_start c) (complete c + 1) (throughput c)) \<in> set (effects t'))"
proof -
  have hist: "latency_histogram t' =
          (if msg_now m < stop_at t
              \<and> (cfg_record_all_responses cfg \<or> pending c - 1 = 0 \<or> \<not> has_pending c)
           then (msg_now m
                - sched fp (thread_start c) (complete_at_last_batch_start c) (throughput c))
             # latency_histogram t
           else latency_histogram t)"
    using assms
    by (auto simp: response_complete_def Let_def drop_fd_Continue not_le
        dest!: reconnect_socket_frame(1) split: if_splits)
  have eff: "Print_next_expected_latency_start
               (sched fp (thread_start c) (complete c + 1) (throughput c)) \<in> set (effects t')"
    if "msg_now m < stop_at t"
      and "sint (msg_now m
           - sched fp (thread_start c) (complete_at_last_batch_start c) (throughput c)) < 0"
    using assms that
    by (auto simp: response_complete_def Let_def drop_fd_Continue not_le
        dest!: reconnect_socket_effects split: if_splits)
  from hist eff show ?thesis by (simp add: Let_def)
qed

theorem response_complete_records_first_value_witness:
  "map_option (\<lambda>(t, c). map sint (latency_histogram t))
     (continued (response_complete cfg_example exact_fpu (early_response\<lparr>msg_now := 4200\<rparr>)
                   t_example c_in_flight))
   = Some [200]"
proof -
  obtain t' c' where r: "response_complete cfg_example exact_fpu (early_response\<lparr>msg_now := 4200\<rparr>)
                   t_example c_in_flight = Continue (t', c')"
    by (simp add: response_complete_def Let_def early_response_def t_example_def zero_thread_def
        c_in_flight_def c_example_def zero_connection_def cfg_example_def)
  from response_complete_records_first_value [OF r] have "latency_histogram t' = [200]"
    by (simp add: Let_def early_response_def t_example_def zero_thread_def
        c_in_flight_def c_example_def zero_connection_def cfg_example_def exact_fpu_def)
  then show ?thesis
    unfolding r by (simp add: continued_def)
qed

text \<open>
  C2 as stated fails: for the response that arrives at 3900 the handler hands the
  negative value \<open>-100\<close> to the corrected histogram and prints the recomputed start
  time 5000; the value recomputed from the current completion count, \<open>-1100\<close>, is not
  what is recorded.
\<close>

theorem negative_latency_is_recorded:
  "map_option (\<lambda>(t, c). (map sint (latency_histogram t), effects t))
     (continued (response_complete cfg_example exact_fpu early_response t_example c_in_flight))
   = Some ([- 100], [Print_next_expected_latency_start 5000])
   \<and> sint (msg_now early_response
             - sched exact_fpu (thread_start c_in_flight) (complete c_in_flight + 1)
                 (throughput c_in_flight)) = - 1100"
  by (simp add: response_complete_def Let_def early_response_def t_example_def zero_thread_def
        c_in_flight_def c_example_def zero_connection_def cfg_example_def exact_fpu_def
        continued_def aeCreateFileEvent_def aeCreateEventLoop_def)


subsection \<open>Read loop\<close>

text \<open>
  C3 (amended). After a read that succeeds and is parsed whole, the loop goes round
  again if and only if the read filled the buffer (\<open>n = RECVBUF\<close>) and the transport
  reports \<open>readable() > 0\<close>: both, not either.
\<close>

theorem read_loop_again_iff:
  assumes "r_status a = OK"
    and "http_parser_execute cfg fp (r_messages a) t c = Continue (t1, c1)"
    and "r_parsed a = r_n a"
  shows
    "((\<exists>tc. read_once cfg fp a t c = Continue (Again tc))
        \<longleftrightarrow> r_n a = RECVBUF \<and> r_readable a > 0)
     \<and> socket_readable cfg fp (a # as) t c =
         (if r_n a = RECVBUF \<and> r_readable a > 0
          then socket_readable cfg fp as (t1\<lparr>bytes := bytes t1 + r_n a\<rparr>) c1
          else (Continue (t1\<lparr>bytes := bytes t1 + r_n a\<rparr>, c1), as))"
  using assms by (simp add: read_once_def Let_def)

theorem read_loop_again_iff_witness:
  "socket_readable cfg_example exact_fpu
     [short_read\<lparr>r_n := 8192, r_parsed := 8192\<rparr>, short_read] zero_thread c_example
   = (Continue (zero_thread\<lparr>bytes := 8292\<rparr>, c_example), [])"
proof -
  have a: "socket_readable cfg_example exact_fpu [short_read]
             (zero_thread\<lparr>bytes := 8192\<rparr>) c_example
           = (Continue (zero_thread\<lparr>bytes := 8292\<rparr>, c_example), [])"
    using read_loop_again_iff [of short_read cfg_example exact_fpu
        "zero_thread\<lparr>bytes := 8192\<rparr>" c_example "zero_thread\<lparr>bytes := 8192\<rparr>" c_example "[]"]
    by (simp add: short_read_def RECVBUF_def zero_thread_def)
  show ?thesis
    using read_loop_again_iff [of "short_read\<lparr>r_n := 8192, r_parsed := 8192\<rparr>" cfg_example
        exact_fpu zero_thread c_example zero_thread c_example "[short_read]"] a
    by (simp add: short_read_def RECVBUF_def zero_thread_def)
qed

text \<open>
  C3 as stated fails: a read of 100 bytes does not fill the buffer; although
  \<open>readable()\<close> then reports 5 bytes, the loop ends and the second answer is never
  asked for.
\<close>

theorem short_read_stops_loop:
  "r_readable short_read > 0
   \<and> read_once cfg_example exact_fpu short_read zero_thread c_example
       = Continue (Return (zero_thread\<lparr>bytes := 100\<rparr>, c_example))
   \<and> socket_readable cfg_example exact_fpu [short_read, short_read] zero_thread c_example
       = (Continue (zero_thread\<lparr>bytes := 100\<rparr>, c_example), [short_read])"
  by (simp add: short_read_def read_once_def RECVBUF_def zero_thread_def Let_def)

subsection \<open>Batch accounting\<close>


lemma usec_to_next_send_frame:
  assumes "usec_to_next_send fp now c = (w, c1)"
  shows "pending c1 = pending c" and "has_pending c1 = has_pending c"
    and "written c1 = written c" and "fd c1 = fd c"
  using assms by (auto simp: usec_to_next_send_def Let_def split: if_splits)









subsection \<open>Transport errors\<close>

lemma setsize_aeDeleteFileEvent [simp]: "setsize (aeDeleteFileEvent l f m) = setsize l"
  by (simp add: aeDeleteFileEvent_def Let_def)

lemma reconnect_socket_result:
  "reconnect_socket env t c =
     (if sock_fd env < 0 \<or> bind_exits env then Exit 1
      else
        let l1 = aeDeleteFileEvent (loop t) (fd c) (AE_WRITABLE OR AE_READABLE);
            t1 = t\<lparr>loop := l1, effects := Close (fd c) # Sock_close (fd c) # effects t,
                   errs := (errs t)\<lparr>reconnect := reconnect (errs t) + 1\<rparr>\<rparr>;
            c1 = c\<lparr>is_connected := False\<rparr>
        in if \<not> connect_refused env \<and> sock_fd env < setsize (loop t) then
             Continue (sock_fd env,
               t1\<lparr>loop := snd (aeCreateFileEvent l1 (sock_fd env) (AE_READABLE OR AE_WRITABLE)
                                  Socket_connected)\<rparr>,
               c1\<lparr>latest_connect := connect_now env,
                  connect_mask := AE_READABLE OR AE_WRITABLE, fd := sock_fd env\<rparr>)
           else
             Continue (- 1, connect_error (sock_fd env) t1,
               if connect_refused env then c1
               else c1\<lparr>latest_connect := connect_now env,
                       connect_mask := AE_READABLE OR AE_WRITABLE\<rparr>))"
  by (auto simp: reconnect_socket_def connect_socket_def Let_def aeCreateFileEvent_def)

lemma reconnect_socket_recovers:
  "if sock_fd env < 0 \<or> bind_exits env then reconnect_socket env t c = Exit 1
   else \<exists>new_fd t' c'. reconnect_socket env t c = Continue (new_fd, t', c')
          \<and> reconnected env t c t' c'
          \<and> read (errs t') = read (errs t) \<and> write_e (errs t') = write_e (errs t)"
  by (simp add: reconnect_socket_result reconnected_def connect_error_def Let_def)

lemma reconnected_errs_read [simp]:
  "reconnected env (t\<lparr>errs := (errs t)\<lparr>read := x\<rparr>\<rparr>) c t' c' = reconnected env t c t' c'"
  by (simp add: reconnected_def)

lemma reconnected_errs_write [simp]:
  "reconnected env (t\<lparr>errs := (errs t)\<lparr>write_e := x\<rparr>\<rparr>) c t' c' = reconnected env t c t' c'"
  by (simp add: reconnected_def)

lemma reconnected_fd:
  "fd c2 = fd c \<Longrightarrow> reconnected env t c2 t' c' = reconnected env t c t' c'"
  by (simp add: reconnected_def)

lemma fd_send_start [simp]: "fd (send_start cfg now c) = fd c"
  by (simp add: send_start_def Let_def)

lemma write_request_error:
  assumes "w_status a = ERROR"
  shows "\<exists>c2. fd c2 = fd c
           \<and> write_request cfg a t c =
               drop_fd (reconnect_socket (w_env a)
                 (t\<lparr>errs := (errs t)\<lparr>write_e := write_e (errs t) + 1\<rparr>\<rparr>) c2)"
proof -
  let ?c2 = "if written c = 0
             then send_start cfg (w_now a)
                    (if cfg_dynamic cfg then c\<lparr>length_req := w_length a\<rparr> else c)
             else c"
  have "fd ?c2 = fd c" by simp
  moreover have "write_request cfg a t c =
               drop_fd (reconnect_socket (w_env a)
                 (t\<lparr>errs := (errs t)\<lparr>write_e := write_e (errs t) + 1\<rparr>\<rparr>) ?c2)"
    using assms by (simp add: write_request_def Let_def)
  ultimately show ?thesis by blast
qed

lemma socket_writeable_error:
  assumes "w_status a = ERROR"
    and "written c \<noteq> 0 \<or> fst (usec_to_next_send fp (w_now a) c) = 0"
  shows "\<exists>c2. fd c2 = fd c
           \<and> socket_writeable cfg fp a t c =
               drop_fd (reconnect_socket (w_env a)
                 (t\<lparr>errs := (errs t)\<lparr>write_e := write_e (errs t) + 1\<rparr>\<rparr>) c2)"
proof (cases "written c = 0")
  case False
  with write_request_error [OF assms(1), of c cfg t] show ?thesis
    by (simp add: socket_writeable_def)
next
  case True
  obtain w c1 where u: "usec_to_next_send fp (w_now a) c = (w, c1)"
    by (cases "usec_to_next_send fp (w_now a) c")
  with True assms(2) have "w = 0" by simp
  from write_request_error [OF assms(1), of "c1\<lparr>latest_write := w_now a\<rparr>" cfg t]
    usec_to_next_send_frame(4) [OF u] True u \<open>w = 0\<close>
  show ?thesis by (simp add: socket_writeable_def)
qed

text \<open>
  C9 (amended). An \<^verbatim>\<open>ERROR\<close> from the transport's read or write is recovered on the
  connection itself: the matching counter (\<^verbatim>\<open>errors.read\<close> or \<^verbatim>\<open>errors.write\<close>) goes up
  by exactly one and the other stays, the connection's events are deleted and its
  socket closed, \<^verbatim>\<open>errors.reconnect\<close> goes up by exactly one, and a fresh connect is
  started on the same connection. The run goes on unless the fresh socket cannot be
  created (or binding it exits): then the process leaves through \<^verbatim>\<open>exit(1)\<close>.
\<close>

theorem transport_error_reconnects:
  "(r_status ra = ERROR \<longrightarrow>
      (if sock_fd (r_env ra) < 0 \<or> bind_exits (r_env ra)
       then socket_readable cfg fp (ra # ras) t c = (Exit 1, ras)
       else \<exists>t' c'. socket_readable cfg fp (ra # ras) t c = (Continue (t', c'), ras)
              \<and> read (errs t') = read (errs t) + 1
              \<and> write_e (errs t') = write_e (errs t)
              \<and> reconnected (r_env ra) t c t' c'))
   \<and> (w_status a = ERROR
        \<and> (written c \<noteq> 0 \<or> fst (usec_to_next_send fp (w_now a) c) = 0) \<longrightarrow>
      (if sock_fd (w_env a) < 0 \<or> bind_exits (w_env a)
       then socket_writeable cfg fp a t c = Exit 1
       else \<exists>t' c'. socket_writeable cfg fp a t c = Continue (t', c')
              \<and> write_e (errs t') = write_e (errs t) + 1
              \<and> read (errs t') = read (errs t)
              \<and> reconnected (w_env a) t c t' c'))"
proof (intro conjI impI)
  assume e: "r_status ra = ERROR"
  let ?t = "t\<lparr>errs := (errs t)\<lparr>read := read (errs t) + 1\<rparr>\<rparr>"
  have ro: "read_once cfg fp ra t c =
          (case drop_fd (reconnect_socket (r_env ra) ?t c) of
             Continue tc \<Rightarrow> Continue (Return tc)
           | Exit n \<Rightarrow> Exit n | Abort \<Rightarrow> Abort | Undefined \<Rightarrow> Undefined)"
    using e by (simp add: read_once_def read_error_def)
  show "if sock_fd (r_env ra) < 0 \<or> bind_exits (r_env ra)
       then socket_readable cfg fp (ra # ras) t c = (Exit 1, ras)
       else \<exists>t' c'. socket_readable cfg fp (ra # ras) t c = (Continue (t', c'), ras)
              \<and> read (errs t') = read (errs t) + 1
              \<and> write_e (errs t') = write_e (errs t)
              \<and> reconnected (r_env ra) t c t' c'"
    using reconnect_socket_recovers [of "r_env ra" ?t c]
    by (auto simp: ro drop_fd_def split: if_splits)
next
  assume "w_status a = ERROR
        \<and> (written c \<noteq> 0 \<or> fst (usec_to_next_send fp (w_now a) c) = 0)"
  then obtain c2 where f: "fd c2 = fd c"
    and w: "socket_writeable cfg fp a t c =
               drop_fd (reconnect_socket (w_env a)
                 (t\<lparr>errs := (errs t)\<lparr>write_e := write_e (errs t) + 1\<rparr>\<rparr>) c2)"
    using socket_writeable_error [of a c fp cfg t] by blast
  let ?t = "t\<lparr>errs := (errs t)\<lparr>write_e := write_e (errs t) + 1\<rparr>\<rparr>"
  show "if sock_fd (w_env a) < 0 \<or> bind_exits (w_env a)
       then socket_writeable cfg fp a t c = Exit 1
       else \<exists>t' c'. socket_writeable cfg fp a t c = Continue (t', c')
              \<and> write_e (errs t') = write_e (errs t) + 1
              \<and> read (errs t') = read (errs t)
              \<and> reconnected (w_env a) t c t' c'"
    using reconnect_socket_recovers [of "w_env a" ?t c2] f
    by (auto simp: w drop_fd_def reconnected_fd [OF f] split: if_splits)
qed

theorem transport_error_reconnects_witness:
  "map_option (\<lambda>(t, c). (read (errs t), reconnect (errs t), fd c, is_connected c))
     (continued (fst (socket_readable cfg_example exact_fpu [short_read\<lparr>r_status := ERROR\<rparr>]
                        t_example c_idle)))
   = Some (1, 1, 7, False)
   \<and> map_option (\<lambda>(t, c). (write_e (errs t), reconnect (errs t), fd c, is_connected c))
       (continued (socket_writeable cfg_example exact_fpu (write_ok\<lparr>w_status := ERROR\<rparr>)
                     t_example c_idle))
     = Some (1, 1, 7, False)"
proof -
  let ?ra = "short_read\<lparr>r_status := ERROR\<rparr>" and ?a = "write_ok\<lparr>w_status := ERROR\<rparr>"
  have u: "fst (usec_to_next_send exact_fpu (w_now ?a) c_idle) = 0"
    by (simp add: usec_to_next_send_def write_ok_def c_idle_def c_example_def
        zero_connection_def exact_fpu_def Let_def)
  note th = transport_error_reconnects [of ?ra cfg_example exact_fpu "[]" t_example c_idle ?a]
  from th obtain t' c' where
    r: "socket_readable cfg_example exact_fpu [?ra] t_example c_idle = (Continue (t', c'), [])"
    and r1: "read (errs t') = read (errs t_example) + 1"
    and r2: "reconnected env_example t_example c_idle t' c'"
    by (auto simp: short_read_def env_example_def)
  from th u obtain t'' c'' where
    w: "socket_writeable cfg_example exact_fpu ?a t_example c_idle = Continue (t'', c'')"
    and w1: "write_e (errs t'') = write_e (errs t_example) + 1"
    and w2: "reconnected env_example t_example c_idle t'' c''"
    by (auto simp: write_ok_def env_example_def)
  from r1 r2 w1 w2 show ?thesis
    unfolding r w
    by (simp add: continued_def reconnected_def env_example_def t_example_def zero_thread_def
        aeCreateEventLoop_def Let_def)
qed

text \<open>
  C9 as stated fails: when \<^verbatim>\<open>socket\<close> fails during the reconnect, a read error and a
  write error both end the whole run through \<^verbatim>\<open>exit(1)\<close>.
\<close>

theorem failed_socket_exits:
  "socket_readable cfg_example exact_fpu
     [short_read\<lparr>r_status := ERROR, r_env := no_socket\<rparr>] t_example c_idle = (Exit 1, [])
   \<and> socket_writeable cfg_example exact_fpu
       (write_ok\<lparr>w_status := ERROR, w_env := no_socket\<rparr>) t_example c_idle = Exit 1"
  by (simp add: read_once_def read_error_def socket_writeable_def write_request_def
      reconnect_socket_def connect_socket_def drop_fd_def usec_to_next_send_def
      short_read_def write_ok_def no_socket_def env_example_def c_idle_def c_example_def
      zero_connection_def exact_fpu_def Let_def)

subsection \<open>Handshake retries\<close>

lemma and3_or3: "(x OR 3) AND 3 = (3 :: cint)"
  by (simp add: bit.conj_disj_distrib2)

lemma connect_socket_masks_agree:
  assumes "connect_socket env t c = Continue (new_fd, t', c')" and "new_fd \<noteq> - 1"
  shows "masks_agree t' c'"
  using assms
  by (auto simp: connect_socket_def Let_def aeCreateFileEvent_def masks_agree_def
      subscribed_def AE_READABLE_def AE_WRITABLE_def and3_or3 split: if_splits)

lemma and_3_parts:
  fixes m :: cint
  assumes "m AND 3 = k"
  shows "m AND 1 = k AND 1" and "m AND 2 = k AND 2"
proof -
  have "m AND 1 = (m AND 3) AND 1" by (simp add: and.assoc)
  with assms show "m AND 1 = k AND 1" by simp
  have "m AND 2 = (m AND 3) AND 2" by (simp add: and.assoc)
  with assms show "m AND 2 = k AND 2" by simp
qed

lemma socket_connected_retry:
  assumes inv: "masks_agree t c" and retry: "ca_status a = RETRY"
  shows "\<exists>t' c'. socket_connected cfg a g t c = Continue (g, t', c')
           \<and> fd c' = fd c
           \<and> connect_mask c' = hinted (retry_flags a)
           \<and> subscribed t' c' = hinted (retry_flags a)
           \<and> masks_agree t' c'"
proof -
  let ?m = "fe_mask (events (loop t) (fd c))"
  from inv have fd: "0 \<le> fd c" "fd c < setsize (loop t)"
    and sub: "?m AND 3 = connect_mask c"
    and cm: "connect_mask c = 0 \<or> connect_mask c = 1 \<or> connect_mask c = 2 \<or> connect_mask c = 3"
    by (auto simp: masks_agree_def subscribed_def AE_READABLE_def AE_WRITABLE_def)
  note parts = and_3_parts [OF sub]
  note defs = socket_connected_def retry_add_flags_def retry_del_flags_def hinted_def
          masks_agree_def subscribed_def aeCreateFileEvent_def aeDeleteFileEvent_def
          AE_READABLE_def AE_WRITABLE_def E_WANT_READ_def E_WANT_WRITE_def Let_def
          and.assoc bit.conj_disj_distrib2
  from cm show ?thesis
  proof (elim disjE)
    assume "connect_mask c = 0"
    with fd sub parts retry show ?thesis by (auto simp: defs)
  next
    assume "connect_mask c = 1"
    with fd sub parts retry show ?thesis by (auto simp: defs)
  next
    assume "connect_mask c = 2"
    with fd sub parts retry show ?thesis by (auto simp: defs)
  next
    assume "connect_mask c = 3"
    with fd sub parts retry show ?thesis by (auto simp: defs)
  qed
qed

lemma round_msec_exact_1000: "round_msec exact_fpu 1000 = 2"
  by (simp add: round_msec_exact)

text \<open>
  C4. The connect handler does not always leave the descriptor subscribed to exactly
  the hinted readiness set. A \<^verbatim>\<open>delay_request\<close> timer armed on the previous socket
  survives a reconnect (\<^verbatim>\<open>reconnect_socket\<close> deletes file events only), and when it
  fires it subscribes the new descriptor to WRITABLE without looking at
  \<^verbatim>\<open>is_connected\<close> or \<^verbatim>\<open>connect_mask\<close>. In the run above, after the reconnect and a
  first \<^verbatim>\<open>RETRY\<close> hinting \<^verbatim>\<open>E_WANT_READ\<close>, \<^verbatim>\<open>connect_mask\<close> and the subscription are both
  READABLE and the timer is still pending; after the timer has fired and the connect
  has answered \<^verbatim>\<open>RETRY\<close> hinting \<^verbatim>\<open>E_WANT_READ\<close> again, the handler returns with
  \<^verbatim>\<open>connect_mask\<close> READABLE while the descriptor is subscribed to READABLE and
  WRITABLE: a superset of the hinted set, which the handler cannot remove because it
  computes its deletions from \<^verbatim>\<open>connect_mask\<close>.
\<close>

theorem stale_timer_leaves_superset:
  "handshake_masks reconnect_run = Some (AE_READABLE, AE_READABLE, True)
   \<and> hinted (retry_flags retry_read) = AE_READABLE
   \<and> handshake_masks stale_timer_run = Some (AE_READABLE, AE_READABLE OR AE_WRITABLE, True)"
proof -
  let ?none = "\<lambda>fd::int. \<lparr>fe_mask = 0, rfileProc = None, wfileProc = None\<rparr>"
  let ?e5 = "\<lambda>m. (?none)(5 := \<lparr>fe_mask = m, rfileProc = Some Socket_readable,
                                 wfileProc = Some Socket_writeable\<rparr>)"
  let ?e7 = "\<lambda>m w. (?e5 0)(7 := \<lparr>fe_mask = m, rfileProc = Some Socket_connected,
                                   wfileProc = Some w\<rparr>)"
  let ?L = "\<lambda>ev tm. \<lparr>setsize = 40, events = ev, timeEvents = tm, stopped = False\<rparr>"
  let ?E = "\<lambda>rd rc. \<lparr>connect = 0, read = rd, write_e = 0, timeout = 0, status = 0,
                      established = 1, reconnect = rc\<rparr>"
  let ?c1 = "c_example\<lparr>fd := 5, connect_mask := 3, is_connected := True,
                latest_connect := 6000\<rparr>"
  let ?t1 = "t_normal\<lparr>loop := ?L (?e5 3) [], errs := ?E 0 0\<rparr>"
  let ?t2 = "t_normal\<lparr>loop := ?L (?e5 1) [(2, Delay_request)], errs := ?E 0 0\<rparr>"
  let ?c3 = "?c1\<lparr>fd := 7, connect_mask := 1, is_connected := False\<rparr>"
  let ?t3 = "t_normal\<lparr>loop := ?L (?e7 1 Socket_connected) [(2, Delay_request)],
                errs := ?E 1 1, effects := [Close 5, Sock_close 5]\<rparr>"
  let ?c4 = "?c3\<lparr>caught_up := False, catch_up_start_time := 5000,
                complete_at_catch_up_start := 3, latest_should_send_time := 5000,
                latest_expected_start := 5000\<rparr>"
  let ?t4 = "t_normal\<lparr>loop := ?L (?e7 3 Socket_writeable) [(2, Delay_request)],
                errs := ?E 1 1, effects := [Close 5, Sock_close 5]\<rparr>"
  note ex = t_normal_def t_example_def zero_thread_def c_example_def zero_connection_def
    env_example_def cfg_plain_def cfg_example_def g_start_def aeCreateEventLoop_def
    AE_READABLE_def AE_WRITABLE_def E_WANT_READ_def E_WANT_WRITE_def
  have sch: "sched exact_fpu 1000 3 (1 / 1000) = 4000" "sched exact_fpu 5000 0 (1 / 500) = 5000"
    by (simp_all add: exact_fpu_def)
  have r1: "connected_run = Continue (g_start, ?t1, ?c1)"
    by (simp add: connected_run_def and_then_def connect_socket_def socket_connected_def
        connect_ok_def aeCreateFileEvent_def Let_def ex)
  have r2: "waiting_run = Continue (g_start, ?t2, ?c1)"
    unfolding waiting_run_def r1
    by (simp add: and_then_def socket_writeable_def usec_to_next_send_def sch
        msec_to_wait_def round_msec_exact_1000
        write_ok_def aeDeleteFileEvent_def aeCreateTimeEvent_def Let_def ex)
  have r3: "reconnect_run = Continue (g_start, ?t3, ?c3)"
    unfolding reconnect_run_def r2
    by (simp add: and_then_def read_once_def read_error_def reconnect_socket_def
        connect_socket_def drop_fd_def socket_connected_def retry_read_def
        retry_add_flags_def retry_del_flags_def short_read_def
        aeDeleteFileEvent_def aeCreateFileEvent_def Let_def ex)
  have r4: "stale_timer_run = Continue (g_start, ?t4, ?c4)"
    unfolding stale_timer_run_def r3
    by (simp add: and_then_def delay_request_def usec_to_next_send_def sch
        socket_connected_def retry_read_def
        retry_add_flags_def retry_del_flags_def AE_NOMORE_def
        aeCreateFileEvent_def Let_def ex)
  show ?thesis
    unfolding r3 r4
    by (simp add: handshake_masks_def continued_def subscribed_def hinted_def retry_read_def ex)
qed

subsection \<open>Warmup barrier\<close>

lemma same_count_refl [simp]: "same_count t t"
  by (simp add: same_count_def)

lemma same_count_trans: "same_count t t1 \<Longrightarrow> same_count t1 t2 \<Longrightarrow> same_count t t2"
  by (simp add: same_count_def)

lemma same_count_with_connection [simp]:
  "same_count t (with_connection t' j c) = same_count t t'"
  by (simp add: same_count_def with_connection_def)

lemma reconnect_socket_same_count:
  "reconnect_socket env t c = Continue (new_fd, t', c') \<Longrightarrow> same_count t t'"
  by (simp add: same_count_def reconnect_socket_frame)

lemma connect_socket_same_count:
  "connect_socket env t c = Continue (new_fd, t', c') \<Longrightarrow> same_count t t'"
  by (simp add: same_count_def connect_socket_frame)

lemma response_complete_same_count:
  "response_complete cfg fp m t c = Continue (t', c') \<Longrightarrow> same_count t t'"
  by (auto simp: response_complete_def Let_def drop_fd_Continue same_count_def
      dest!: reconnect_socket_same_count [unfolded same_count_def] split: if_splits)

lemma http_parser_execute_same_count:
  "http_parser_execute cfg fp ms t c = Continue (t', c') \<Longrightarrow> same_count t t'"
proof (induction ms arbitrary: t c)
  case Nil
  then show ?case by simp
next
  case (Cons m ms)
  then show ?case
    by (auto split: outcome.splits
        dest!: response_complete_same_count intro: same_count_trans)
qed

lemma read_error_same_count:
  "read_error env t c = Continue (t', c') \<Longrightarrow> same_count t t'"
  by (auto simp: read_error_def drop_fd_Continue same_count_def
      dest!: reconnect_socket_same_count [unfolded same_count_def])

lemma read_once_same_count:
  assumes "read_once cfg fp a t c = Continue r"
  shows "same_count t (case r of Again (t', c') \<Rightarrow> t' | Return (t', c') \<Rightarrow> t')"
  using assms
  by (auto simp: read_once_def Let_def same_count_def
      split: status.splits outcome.splits if_splits
      dest!: read_error_same_count [unfolded same_count_def]
             http_parser_execute_same_count [unfolded same_count_def])

lemma socket_readable_same_count:
  "socket_readable cfg fp ras t c = (Continue (t', c'), rest) \<Longrightarrow> same_count t t'"
proof (induction ras arbitrary: t c)
  case Nil
  then show ?case by simp
next
  case (Cons a ras)
  show ?case
  proof (cases "read_once cfg fp a t c")
    case (Continue r)
    from read_once_same_count [OF this] Cons.prems Continue Cons.IH show ?thesis
      by (cases r) (auto intro: same_count_trans)
  qed (use Cons.prems in auto)
qed

lemma write_request_same_count:
  "write_request cfg a t c = Continue (t', c') \<Longrightarrow> same_count t t'"
  by (auto simp: write_request_def Let_def drop_fd_Continue same_count_def
      split: status.splits if_splits
      dest!: reconnect_socket_same_count [unfolded same_count_def])

lemma socket_writeable_same_count:
  "socket_writeable cfg fp a t c = Continue (t', c') \<Longrightarrow> same_count t t'"
  by (auto simp: socket_writeable_def same_count_def
      split: if_splits prod.splits outcome.splits
      dest!: write_request_same_count [unfolded same_count_def])

lemma delay_request_same_count:
  "delay_request fp now t c = Continue (rc, t', c') \<Longrightarrow> same_count t t'"
  by (auto simp: delay_request_def same_count_def
      split: if_splits prod.splits outcome.splits)

lemma delayed_initial_connect_same_count:
  "delayed_initial_connect now env t c = Continue (rc, t', c') \<Longrightarrow> same_count t t'"
  by (auto simp: delayed_initial_connect_def drop_fd_def same_count_def
      split: outcome.splits dest!: connect_socket_same_count [unfolded same_count_def])

lemma phase_move_same_count: "same_count t (phase_move t p now)"
  by (simp add: phase_move_def same_count_def Let_def)

lemma socket_connected_count:
  assumes "socket_connected cfg a g t c = Continue (g', t', c')"
  shows "connections t' = connections t"
    and "established (errs t') =
           established (errs t) + (if ca_status a = OK \<and> \<not> is_connected c then 1 else 0)"
    and "g_ready_threads g' =
           g_ready_threads g
           + (if cfg_warmup cfg \<and> ca_status a = OK \<and> \<not> is_connected c
                 \<and> established (errs t) + 1 = unat (connections t)
              then 1 else 0)"
    and "g_is_ready g' \<longleftrightarrow>
           g_is_ready g
           \<or> (cfg_warmup cfg \<and> ca_status a = OK \<and> \<not> is_connected c
              \<and> established (errs t) + 1 = unat (connections t)
              \<and> g_ready_threads g + 1 = uint (cfg_threads cfg))"
proof -
  show "connections t' = connections t"
    "established (errs t') =
           established (errs t) + (if ca_status a = OK \<and> \<not> is_connected c then 1 else 0)"
    "g_ready_threads g' =
           g_ready_threads g
           + (if cfg_warmup cfg \<and> ca_status a = OK \<and> \<not> is_connected c
                 \<and> established (errs t) + 1 = unat (connections t)
              then 1 else 0)"
    "g_is_ready g' \<longleftrightarrow>
           g_is_ready g
           \<or> (cfg_warmup cfg \<and> ca_status a = OK \<and> \<not> is_connected c
              \<and> established (errs t) + 1 = unat (connections t)
              \<and> g_ready_threads g + 1 = uint (cfg_threads cfg))"
    using assms
    by (cases "ca_status a";
        auto simp: socket_connected_def Let_def drop_fd_def
          split: if_splits outcome.splits prod.splits ae_rc.splits
          dest!: reconnect_socket_same_count [unfolded same_count_def])+
qed

lemma ready_same_count: "same_count t t' \<Longrightarrow> ready t' = ready t"
  by (simp add: same_count_def ready_def)

lemma ready_with_connection [simp]: "ready (with_connection t j c) = ready t"
  by (simp add: ready_def with_connection_def)

lemma barrier_step:
  assumes "cfg_warmup cfg" and "worker_step cfg fp (g, t) (g', t')"
  shows "(ready t \<longrightarrow> ready t')
    \<and> g_ready_threads g' = g_ready_threads g + (if ready t' \<and> \<not> ready t then 1 else 0)
    \<and> (g_is_ready g' \<longleftrightarrow>
         g_is_ready g
         \<or> (ready t' \<and> \<not> ready t \<and> g_ready_threads g' = uint (cfg_threads cfg)))"
  using assms(2)
proof (cases rule: worker_step.cases)
  case (connected j a t1 c')
  then have h: "socket_connected cfg a g t (cs t ! j) = Continue (g', t1, c')"
    and e: "t' = with_connection t1 j c'" by simp_all
  from socket_connected_count [OF h] assms(1) show ?thesis
    unfolding e ready_with_connection by (auto simp: ready_def)
next
  case (initial_connect j now env rc t1 c')
  then have h: "delayed_initial_connect now env t (cs t ! j) = Continue (rc, t1, c')"
    and e: "t' = with_connection t1 j c'" "g' = g" by simp_all
  from delayed_initial_connect_same_count [OF h] show ?thesis
    unfolding e by (auto simp: ready_same_count)
next
  case (writeable j wa t1 c')
  then have h: "socket_writeable cfg fp wa t (cs t ! j) = Continue (t1, c')"
    and e: "t' = with_connection t1 j c'" "g' = g" by simp_all
  from socket_writeable_same_count [OF h] show ?thesis
    unfolding e by (auto simp: ready_same_count)
next
  case (delayed j now rc t1 c')
  then have h: "delay_request fp now t (cs t ! j) = Continue (rc, t1, c')"
    and e: "t' = with_connection t1 j c'" "g' = g" by simp_all
  from delay_request_same_count [OF h] show ?thesis
    unfolding e by (auto simp: ready_same_count)
next
  case (readable j ras t1 c' rest)
  then have h: "socket_readable cfg fp ras t (cs t ! j) = (Continue (t1, c'), rest)"
    and e: "t' = with_connection t1 j c'" "g' = g" by simp_all
  from socket_readable_same_count [OF h] show ?thesis
    unfolding e by (auto simp: ready_same_count)
next
  case (timed_out now rc)
  then have e: "t' = phase_move t PHASE_NORMAL now" "g' = g"
    by (simp_all add: warmup_timed_out_def)
  from phase_move_same_count [of t PHASE_NORMAL now] show ?thesis
    unfolding e by (auto simp: ready_same_count)
next
  case (sync now rc)
  then have e: "t' = phase_move t PHASE_NORMAL now \<or> t' = t" "g' = g"
    by (auto simp: inter_thread_sync_def Let_def split: if_splits)
  from phase_move_same_count [of t PHASE_NORMAL now] e show ?thesis
    by (auto simp: ready_same_count)
qed

lemma length_filter_update:
  assumes "i < length xs"
  shows "length (filter P (xs[i := y])) + (if P (xs ! i) then 1 else 0)
       = length (filter P xs) + (if P y then 1 else 0)"
  using assms
proof (induction xs arbitrary: i)
  case Nil
  then show ?case by simp
next
  case (Cons x xs)
  then show ?case by (cases i) auto
qed

lemma length_filter_less:
  assumes "i < length xs" and "\<not> P (xs ! i)"
  shows "length (filter P xs) < length xs"
proof -
  from assms have "xs ! i \<in> set xs" "\<not> P (xs ! i)" by simp_all
  then show ?thesis by (meson length_filter_less)
qed

lemma thread_main_not_ready:
  assumes "valid_config cfg"
  shows "\<not> ready (thread_main cfg fp len now (main_thread cfg fp now0))"
proof -
  from assms have "unat (cfg_threads cfg) \<le> unat (cfg_connections cfg)"
    and "0 < unat (cfg_threads cfg)"
    by (simp_all add: valid_config_def word_le_nat_alt unat_gt_0)
  then have "0 < unat (cfg_connections cfg) div unat (cfg_threads cfg)"
    by (simp add: div_greater_zero_iff)
  then have "0 < unat (cfg_connections cfg div cfg_threads cfg)"
    by (simp add: unat_div)
  then show ?thesis
    by (simp add: ready_def thread_main_def main_thread_def zero_thread_def Let_def)
qed

lemma barrier_invariant:
  assumes "valid_config cfg" and "cfg_warmup cfg" and "reachable cfg fp s"
  shows "barrier_inv cfg s"
  using assms(3)
proof induction
  case (start ps)
  have "filter ready (map (\<lambda>(len, now0, now). thread_main cfg fp len now
                                                  (main_thread cfg fp now0)) ps) = []"
    using thread_main_not_ready [OF assms(1)] by (auto simp: filter_empty_conv)
  moreover from assms(1) have "uint (cfg_threads cfg) \<noteq> 0"
    by (simp add: valid_config_def uint_0_iff)
  ultimately show ?case
    using start by (simp add: barrier_inv_def g_start_def)
next
  case (step s i g' t')
  let ?ws = "workers s" and ?t = "workers s ! i"
  from step.IH have len: "length ?ws = unat (cfg_threads cfg)"
    and cnt: "g_ready_threads (glob s) = int (length (filter ready ?ws))"
    and flag: "g_is_ready (glob s) \<longleftrightarrow> g_ready_threads (glob s) = uint (cfg_threads cfg)"
    by (simp_all add: barrier_inv_def)
  from barrier_step [OF assms(2) step.hyps(3)]
  have mono: "ready ?t \<longrightarrow> ready t'"
    and inc: "g_ready_threads g' =
                g_ready_threads (glob s) + (if ready t' \<and> \<not> ready ?t then 1 else 0)"
    and fl: "g_is_ready g' \<longleftrightarrow>
               g_is_ready (glob s)
               \<or> (ready t' \<and> \<not> ready ?t \<and> g_ready_threads g' = uint (cfg_threads cfg))"
    by simp_all
  have upd: "length (filter ready (?ws[i := t'])) + (if ready ?t then 1 else 0)
           = length (filter ready ?ws) + (if ready t' then 1 else 0)"
    using step.hyps(2) by (rule length_filter_update)
  have cnt': "g_ready_threads g' = int (length (filter ready (?ws[i := t'])))"
    using inc cnt upd mono by (auto split: if_splits)
  have n: "uint (cfg_threads cfg) = int (length ?ws)"
    using len by simp
  have flag': "g_is_ready g' \<longleftrightarrow> g_ready_threads g' = uint (cfg_threads cfg)"
  proof (cases "ready t' \<and> \<not> ready ?t")
    case True
    then have "length (filter ready ?ws) < length ?ws"
      using step.hyps(2) by (auto intro: length_filter_less)
    with cnt n flag have "\<not> g_is_ready (glob s)" by simp
    with fl True show ?thesis by simp
  next
    case False
    with fl inc flag show ?thesis by auto
  qed
  from len cnt' flag' show ?case
    by (simp add: barrier_inv_def)
qed

lemma w_start_value:
  "connections w_start = 1" "cs w_start = [zero_connection\<lparr>throughput := 1 / 1000, catch_up_throughput := 1 / 500,
       caught_up := True\<rparr>]"
  "setsize (loop w_start) = 13" "errs w_start = errs zero_thread"
  "phase w_start = PHASE_WARMUP"
  by (simp_all add: w_start_def thread_main_def main_thread_def cfg_small_def cfg_example_def
      zero_thread_def exact_fpu_def zero_connection_def aeCreateEventLoop_def
      aeCreateTimeEvent_def Let_def)

text \<open>
  C7. Under warmup, in every state a run can reach: \<^verbatim>\<open>g_ready_threads\<close> is the number of
  workers whose established count has reached their connection count, so each worker
  is counted exactly once, in the step of \<^verbatim>\<open>socket_connected\<close> in which its established
  count becomes equal to its connection count; \<^verbatim>\<open>g_is_ready\<close> is set exactly when the
  counter equals \<^verbatim>\<open>cfg.threads\<close>, never while it is below, and stays set; and a sync
  timer that finds \<^verbatim>\<open>g_is_ready\<close> set moves its worker to \<^verbatim>\<open>PHASE_NORMAL\<close> and answers
  \<^verbatim>\<open>AE_NOMORE\<close>, so it is not armed again.
\<close>

theorem warmup_barrier:
  assumes "valid_config cfg" and "cfg_warmup cfg" and "reachable cfg fp s"
  shows
    "g_ready_threads (glob s) = int (length (filter ready (workers s)))
     \<and> (g_is_ready (glob s) \<longleftrightarrow> g_ready_threads (glob s) = uint (cfg_threads cfg))
     \<and> g_ready_threads (glob s) \<le> uint (cfg_threads cfg)
     \<and> (i < length (workers s) \<and> worker_step cfg fp (glob s, workers s ! i) (g', t') \<longrightarrow>
          g_ready_threads g' =
            g_ready_threads (glob s)
            + (if ready t' \<and> \<not> ready (workers s ! i) then 1 else 0)
          \<and> (ready (workers s ! i) \<longrightarrow> ready t')
          \<and> (g_is_ready (glob s) \<longrightarrow> g_is_ready g'))
     \<and> (socket_connected cfg a (glob s) t c = Continue (g1, t1, c1) \<longrightarrow>
          g_ready_threads g1 =
            g_ready_threads (glob s)
            + (if ca_status a = OK \<and> \<not> is_connected c
                  \<and> established (errs t1) = unat (connections t1)
               then 1 else 0))
     \<and> (g_is_ready (glob s) \<longrightarrow>
          inter_thread_sync (glob s) now t = (AE_NOMORE, phase_move t PHASE_NORMAL now)
          \<and> phase (phase_move t PHASE_NORMAL now) = PHASE_NORMAL)"
proof -
  from assms have inv: "barrier_inv cfg s" by (rule barrier_invariant)
  then have len: "length (workers s) = unat (cfg_threads cfg)"
    and cnt: "g_ready_threads (glob s) = int (length (filter ready (workers s)))"
    and flag: "g_is_ready (glob s) \<longleftrightarrow> g_ready_threads (glob s) = uint (cfg_threads cfg)"
    by (simp_all add: barrier_inv_def)
  have n: "uint (cfg_threads cfg) = int (length (workers s))"
    using len by simp
  have "length (filter ready (workers s)) \<le> length (workers s)" by simp
  with cnt have bound: "g_ready_threads (glob s) \<le> uint (cfg_threads cfg)"
    unfolding n by simp
  have st: "g_ready_threads g' =
            g_ready_threads (glob s)
            + (if ready t' \<and> \<not> ready (workers s ! i) then 1 else 0)
          \<and> (ready (workers s ! i) \<longrightarrow> ready t')
          \<and> (g_is_ready (glob s) \<longrightarrow> g_is_ready g')"
    if "i < length (workers s)" "worker_step cfg fp (glob s, workers s ! i) (g', t')"
    using barrier_step [OF assms(2) that(2)] by auto
  have co: "g_ready_threads g1 =
            g_ready_threads (glob s)
            + (if ca_status a = OK \<and> \<not> is_connected c
                  \<and> established (errs t1) = unat (connections t1)
               then 1 else 0)"
    if "socket_connected cfg a (glob s) t c = Continue (g1, t1, c1)"
    using socket_connected_count [OF that] assms(2) by auto
  have sy: "inter_thread_sync (glob s) now t = (AE_NOMORE, phase_move t PHASE_NORMAL now)
          \<and> phase (phase_move t PHASE_NORMAL now) = PHASE_NORMAL"
    if "g_is_ready (glob s)"
    using that by (simp add: inter_thread_sync_def phase_move_def Let_def)
  from cnt flag bound st co sy show ?thesis by blast
qed

theorem warmup_barrier_witness:
  "g_ready_threads g_start = int (length (filter ready [w_start]))
   \<and> \<not> g_is_ready g_start
   \<and> map_option (\<lambda>(g, t, c). (g_ready_threads g, g_is_ready g, ready (with_connection t 0 c)))
       (continued
          (and_then (delayed_initial_connect 0 env_example w_start (cs w_start ! 0))
             (\<lambda>(rc, t, c). socket_connected cfg_small connect_ok g_start
                               (with_connection t 0 c) c)))
     = Some (1, True, True)"
proof -
  have v: "valid_config cfg_small" and w: "cfg_warmup cfg_small"
    by (simp_all add: valid_config_def cfg_small_def cfg_example_def)
  have "reachable cfg_small exact_fpu
          \<lparr>glob = g_start,
           workers = map (\<lambda>(len, now0, now). thread_main cfg_small exact_fpu len now
                                                (main_thread cfg_small exact_fpu now0))
                       [(0, 0, 0)]\<rparr>"
    by (rule reachable.start) (simp add: cfg_small_def)
  then have r0: "reachable cfg_small exact_fpu \<lparr>glob = g_start, workers = [w_start]\<rparr>"
    by (simp add: w_start_def)
  obtain t1 c1 where
    d: "delayed_initial_connect 0 env_example w_start (cs w_start ! 0) = Continue (AE_NOMORE, t1, c1)"
    and c1: "\<not> is_connected c1" and e1: "established (errs t1) = 0"
    and n1: "connections t1 = 1" and l1: "cs t1 = cs w_start"
    by (simp add: delayed_initial_connect_def connect_socket_def drop_fd_def
        aeCreateFileEvent_def env_example_def w_start_value zero_thread_def Let_def)
  have s1: "worker_step cfg_small exact_fpu (g_start, w_start) (g_start, with_connection t1 0 c1)"
    by (rule worker_step.initial_connect [OF _ d]) (simp add: w_start_value)
  from reachable.step [OF r0 _ , of 0, simplified, OF s1]
  have r1: "reachable cfg_small exact_fpu
              \<lparr>glob = g_start, workers = [with_connection t1 0 c1]\<rparr>"
    by simp
  let ?t1 = "with_connection t1 0 c1"
  have "\<exists>r. socket_connected cfg_small connect_ok g_start ?t1 c1 = Continue r"
    by (simp add: socket_connected_def connect_ok_def Let_def)
  then obtain g2 t2 c2 where
    k: "socket_connected cfg_small connect_ok g_start ?t1 c1 = Continue (g2, t2, c2)"
    by (metis prod_cases3)
  have cs1: "cs ?t1 ! 0 = c1" "0 < length (cs ?t1)"
    by (simp_all add: with_connection_def l1 w_start_value)
  have s2: "worker_step cfg_small exact_fpu (g_start, ?t1) (g2, with_connection t2 0 c2)"
    using worker_step.connected [of 0 ?t1 cfg_small connect_ok g_start g2 t2 c2 exact_fpu] cs1 k
    by simp
  from reachable.step [OF r1 _ , of 0, simplified, OF s2]
  have r2: "reachable cfg_small exact_fpu
              \<lparr>glob = g2, workers = [with_connection t2 0 c2]\<rparr>"
    by simp
  have a0: "g_ready_threads g_start = int (length (filter ready [w_start]))"
    "\<not> g_is_ready g_start"
    using warmup_barrier [OF v w r0] by (simp_all add: g_start_def cfg_small_def)
  from socket_connected_count [OF k] c1 e1 n1
  have e2: "established (errs t2) = 1" "connections t2 = 1"
    by (simp_all add: connect_ok_def with_connection_def)
  then have rd: "ready (with_connection t2 0 c2)"
    by (simp add: ready_def with_connection_def)
  from warmup_barrier [OF v w r2] rd
  have a2: "g_ready_threads g2 = 1" "g_is_ready g2"
    by (simp_all add: cfg_small_def)
  from a0 a2 rd show ?thesis
    by (simp add: d k and_then_def continued_def)
qed

end
